theory Spec2Isabelle
  imports Complex_Main
begin

section \<open>CalibNet training script: data model\<close>

text \<open>
  The development embeds \<^verbatim>\<open>train.py\<close>: the validation pass \<^verbatim>\<open>val\<close>, the
  training driver \<^verbatim>\<open>train\<close> and the data-loader set-up of the main block.

  Every tensor of the script is a \<^verbatim>\<open>torch.Tensor\<close>; the type variable \<open>'t\<close> stands for it.
  \<open>'p\<close> is a model \<^verbatim>\<open>state_dict\<close>, \<open>'o\<close> an optimizer \<^verbatim>\<open>state_dict\<close>, and \<open>'s\<close> a
  Python float (also used for the 0-dimensional loss tensors). Floats are only assumed
  to carry an order, addition, multiplication and division; no law of real arithmetic
  is used anywhere.

  Moving a tensor to a device (\<^verbatim>\<open>.to(device)\<close>) keeps its value and is the identity
  here. Console output (\<^verbatim>\<open>tqdm\<close>, \<^verbatim>\<open>print\<close>) and the logger are not modelled.
\<close>

datatype py_error =
  IndexError | KeyError | TypeError | ZeroDivisionError | FileNotFoundError | ValueError |
  RuntimeError

text \<open>One batch as the data loader delivers it; the field \<open>b_x\<close> is \<^verbatim>\<open>batch['x']\<close>.
  \<^verbatim>\<open>batch['InTran']\<close> holds one
  intrinsics matrix per batch element and is indexed by position.\<close>

record 't batch =
  b_img :: 't
  b_depth_img :: 't
  b_pcd :: 't
  b_uncalibed_pcd :: 't
  b_uncalibed_depth_img :: 't
  b_igt :: 't
  b_InTran :: "'t list"

text \<open>The command-line options that \<^verbatim>\<open>train\<close>, \<^verbatim>\<open>val\<close> and the main block read;
  the field \<open>arg_x\<close> is \<^verbatim>\<open>args.x\<close>.\<close>

record 's args =
  arg_batch_size :: int
  arg_device :: string
  arg_resume :: string
  arg_epoch :: int
  arg_checkpoint_dir :: string
  arg_checkpoint_name :: string
  arg_lr0 :: 's
  arg_momentum :: 's
  arg_weight_decay :: 's
  arg_lr_exp_decay :: 's
  arg_scale :: 's
  arg_inner_iter :: int
  arg_alpha :: 's
  arg_beta :: 's
  arg_pooling :: int

text \<open>A \<^verbatim>\<open>utils.transform.DepthImgGenerator\<close> object: what its constructor was given.\<close>

record 't depth_img_generator =
  gen_shape :: "nat \<times> nat"
  gen_InTran :: 't
  gen_pooling :: int

definition DepthImgGenerator :: "nat \<times> nat \<Rightarrow> 't \<Rightarrow> int \<Rightarrow> 't depth_img_generator" where
  "DepthImgGenerator img_shape K pool =
     \<lparr>gen_shape = img_shape, gen_InTran = K, gen_pooling = pool\<rparr>"

text \<open>The values a checkpoint dictionary stores, and the dictionary itself in insertion
  order.\<close>

datatype ('p, 'o, 's) ckval = CkModel 'p | CkOptimizer 'o | CkFloat 's | CkInt int

type_synonym ('p, 'o, 's) checkpoint = "(string \<times> ('p, 'o, 's) ckval) list"

text \<open>
  The code of the repository that the script calls but that lives in other modules
  (\<^verbatim>\<open>CalibNet\<close>, \<^verbatim>\<open>utils.se3\<close>, \<^verbatim>\<open>utils.transform\<close>, \<^verbatim>\<open>loss\<close>) and the PyTorch
  functions it uses are parameters of the model, collected in one record.
  \<^item> \<open>forward \<theta> training rgb depth\<close> is \<^verbatim>\<open>model(rgb_img, depth_img)\<close> for a model with
    parameters \<open>\<theta>\<close> in training or evaluation mode; it returns the two twists.
  \<^item> \<open>generate g extran pcd\<close> is the call \<^verbatim>\<open>depth_generator(extran, pcd)\<close>; it returns
    the new depth image and the new point cloud.
  \<^item> \<open>optimizer_step opt \<theta> loss\<close> is \<^verbatim>\<open>loss.backward(); optimizer.step()\<close>: \<open>loss\<close> is the
    scalar loss as a function of the parameters, which is what autograd differentiates.
\<close>

record ('t, 'p, 'o, 's) lib =
  cuda_is_available :: bool
  model_init :: 'p
  sgd_init :: "'p \<Rightarrow> 's \<Rightarrow> 's \<Rightarrow> 's \<Rightarrow> 'o"
  forward :: "'p \<Rightarrow> bool \<Rightarrow> 't \<Rightarrow> 't \<Rightarrow> 't \<times> 't"
  cat :: "'t \<Rightarrow> 't \<Rightarrow> 't"
  se3_exp :: "'t \<Rightarrow> 't"
  generate :: "'t depth_img_generator \<Rightarrow> 't \<Rightarrow> 't \<Rightarrow> 't \<times> 't"
  size0 :: "'t \<Rightarrow> nat"
  shape_hw :: "'t \<Rightarrow> nat \<times> nat"
  eye4_repeat :: "nat \<Rightarrow> 't"
  bmm :: "'t \<Rightarrow> 't \<Rightarrow> 't"
  geodesic_distance :: "'t \<Rightarrow> 't \<Rightarrow> 's \<times> 's"
  Photo_Loss :: "'s \<Rightarrow> 't \<Rightarrow> 't \<Rightarrow> 's"
  ChamferDistanceLoss :: "'s \<Rightarrow> string \<Rightarrow> 't \<Rightarrow> 't \<Rightarrow> 's"
  zero_grad :: "'o \<Rightarrow> 'o"
  optimizer_step :: "'o \<Rightarrow> 'p \<Rightarrow> ('p \<Rightarrow> 's) \<Rightarrow> 'p \<times> 'o"
  scheduler_step :: "'s \<Rightarrow> 'o \<Rightarrow> 'o"
  float_of_len :: "nat \<Rightarrow> 's"
  float_inf :: 's

text \<open>
  The calls the script makes, in the order it makes them. A \<open>Forward\<close> event records the
  gradient mode and the model mode at the time of the call.
\<close>

datatype ('t, 'p, 'o, 's) event =
    CudaIsAvailable
  | ModelTo string
  | TorchLoad string
  | ZeroGrad
  | Forward bool bool 't 't
  | Se3Exp 't
  | Generate "'t depth_img_generator" 't 't
  | Bmm 't 't
  | GeodesicDistance 't 't
  | PhotoLoss 's 't 't
  | ChamferLoss 's string 't 't
  | Backward 's
  | OptimizerStep
  | SchedulerStep
  | TorchSave string "('p, 'o, 's) checkpoint"

text \<open>The objects the script mutates: the model (its parameters and its mode), the
  optimizer, the global gradient mode, and the files written by \<^verbatim>\<open>torch.save\<close>.\<close>

record ('p, 'o, 's) world =
  model_params :: 'p
  model_training :: bool
  optimizer_state :: 'o
  grad_enabled :: bool
  files :: "string \<Rightarrow> ('p, 'o, 's) checkpoint option"

section \<open>The validation pass\<close>

text \<open>
  The inner loop of \<^verbatim>\<open>val\<close> (lines 75 to 79). The loop variable is unused, so the
  loop is a recursion on the number of iterations left. The state is the triple of the
  variables the loop reads and assigns:
  \<^verbatim>\<open>uncalibed_depth_img\<close>, \<^verbatim>\<open>uncalibed_pcd\<close> and \<^verbatim>\<open>g0\<close>.
  Line 79 is \<^verbatim>\<open>g0.bmm(extran)\<close>: \<^verbatim>\<open>Tensor.bmm\<close> returns a new tensor and the statement
  drops it, so \<^verbatim>\<open>g0\<close> is not assigned.
\<close>

fun val_inner ::
  "('t, 'p, 'o, 's) lib \<Rightarrow> 'p \<Rightarrow> bool \<Rightarrow> bool \<Rightarrow> 't \<Rightarrow> 't depth_img_generator \<Rightarrow> nat \<Rightarrow>
   't \<times> 't \<times> 't \<Rightarrow> ('t \<times> 't \<times> 't) \<times> ('t, 'p, 'o, 's) event list" where
  "val_inner L \<theta> tr gr rgb_img depth_generator 0 st = (st, [])"
| "val_inner L \<theta> tr gr rgb_img depth_generator (Suc n) (uncalibed_depth_img, uncalibed_pcd, g0) =
     (let (twist_rot, twist_tsl) = forward L \<theta> tr rgb_img uncalibed_depth_img;
          twist = cat L twist_rot twist_tsl;
          extran = se3_exp L twist;
          (uncalibed_depth_img', uncalibed_pcd') = generate L depth_generator extran uncalibed_pcd;
          dropped = bmm L g0 extran;
          (st', evs) = val_inner L \<theta> tr gr rgb_img depth_generator n
                         (uncalibed_depth_img', uncalibed_pcd', g0)
      in (st', [Forward gr tr rgb_img uncalibed_depth_img, Se3Exp twist,
                Generate depth_generator extran uncalibed_pcd, Bmm g0 extran] @ evs))"

text \<open>The body of the loop over the batches of \<^verbatim>\<open>val\<close> (lines 66 to 82): it returns
  \<^verbatim>\<open>dR.item()\<close> and \<^verbatim>\<open>dT.item()\<close>. \<^verbatim>\<open>batch['InTran'][0]\<close> raises on an empty
  sequence. \<^verbatim>\<open>range(n)\<close> is empty for a negative \<open>n\<close>.\<close>

definition val_batch ::
  "('t, 'p, 'o, 's) lib \<Rightarrow> 's args \<Rightarrow> ('p, 'o, 's) world \<Rightarrow> 't batch \<Rightarrow>
   py_error + (('s \<times> 's) \<times> ('t, 'p, 'o, 's) event list)" where
  "val_batch L a w b =
     (let rgb_img = b_img b;
          B = size0 L rgb_img
      in case b_InTran b of
           [] \<Rightarrow> Inl IndexError
         | K # _ \<Rightarrow>
             let img_shape = shape_hw L (b_img b);
                 depth_generator = DepthImgGenerator img_shape K (arg_pooling a);
                 g0 = eye4_repeat L B;
                 ((d, p, g0'), evs) =
                    val_inner L (model_params w) (model_training w) (grad_enabled w) rgb_img depth_generator
                      (nat (arg_inner_iter a)) (b_uncalibed_depth_img b, b_uncalibed_pcd b, g0);
                 (dR, dT) = geodesic_distance L g0' (b_igt b)
             in Inr ((dR, dT), evs @ [GeodesicDistance g0' (b_igt b)]))"

text \<open>The loop over the batches: \<^verbatim>\<open>total_dR\<close> and \<^verbatim>\<open>total_dT\<close> are accumulated, an
  exception of a batch ends the pass.\<close>

fun val_batches ::
  "('t, 'p, 'o, 's::plus) lib \<Rightarrow> 's args \<Rightarrow> ('p, 'o, 's) world \<Rightarrow> 't batch list \<Rightarrow> 's \<times> 's \<Rightarrow>
   py_error + (('s \<times> 's) \<times> ('t, 'p, 'o, 's) event list)" where
  "val_batches L a w [] tot = Inr (tot, [])"
| "val_batches L a w (b # bs) (total_dR, total_dT) =
     (case val_batch L a w b of
        Inl e \<Rightarrow> Inl e
      | Inr ((dR, dT), evs) \<Rightarrow>
          (case val_batches L a w bs (total_dR + dR, total_dT + dT) of
             Inl e \<Rightarrow> Inl e
           | Inr (tot, evs') \<Rightarrow> Inr (tot, evs @ evs')))"

text \<open>
  \<^verbatim>\<open>val\<close> itself. The decorator \<^verbatim>\<open>@torch.no_grad()\<close> switches the gradient mode off for
  the call and puts the previous mode back on return; \<^verbatim>\<open>model.eval()\<close> switches the model
  to evaluation mode and nothing switches it back. The two divisions by
  \<^verbatim>\<open>len(val_loader)\<close> raise when the loader has no batch.
\<close>

definition val ::
  "('t, 'p, 'o, 's::{plus,zero,inverse}) lib \<Rightarrow> 's args \<Rightarrow> 't batch list \<Rightarrow> ('p, 'o, 's) world \<Rightarrow>
   py_error + (('s \<times> 's \<times> 's) \<times> ('p, 'o, 's) world \<times> ('t, 'p, 'o, 's) event list)" where
  "val L a val_loader w =
     (let saved = grad_enabled w;
          w1 = w\<lparr>grad_enabled := False\<rparr>;
          w2 = w1\<lparr>model_training := False\<rparr>
      in case val_batches L a w2 val_loader (0, 0) of
           Inl e \<Rightarrow> Inl e
         | Inr ((total_dR, total_dT), evs) \<Rightarrow>
             if length val_loader = 0 then Inl ZeroDivisionError
             else
               let total_dR' = total_dR / float_of_len L (length val_loader);
                   total_dT' = total_dT / float_of_len L (length val_loader);
                   loss_dx = total_dR' + total_dT'
               in Inr ((loss_dx, total_dR', total_dT'), w2\<lparr>grad_enabled := saved\<rparr>, evs))"

section \<open>The training driver\<close>

text \<open>The inner loop of \<^verbatim>\<open>train\<close> (lines 141 to 144). It has no accumulated transform:
  its state is the pair \<^verbatim>\<open>uncalibed_depth_img\<close>, \<^verbatim>\<open>uncalibed_pcd\<close>.\<close>

fun train_inner ::
  "('t, 'p, 'o, 's) lib \<Rightarrow> 'p \<Rightarrow> bool \<Rightarrow> bool \<Rightarrow> 't \<Rightarrow> 't depth_img_generator \<Rightarrow> nat \<Rightarrow>
   't \<times> 't \<Rightarrow> ('t \<times> 't) \<times> ('t, 'p, 'o, 's) event list" where
  "train_inner L \<theta> tr gr rgb_img depth_generator 0 st = (st, [])"
| "train_inner L \<theta> tr gr rgb_img depth_generator (Suc n) (uncalibed_depth_img, uncalibed_pcd) =
     (let (twist_rot, twist_tsl) = forward L \<theta> tr rgb_img uncalibed_depth_img;
          twist = cat L twist_rot twist_tsl;
          extran = se3_exp L twist;
          (uncalibed_depth_img', uncalibed_pcd') = generate L depth_generator extran uncalibed_pcd;
          (st', evs) = train_inner L \<theta> tr gr rgb_img depth_generator n
                         (uncalibed_depth_img', uncalibed_pcd')
      in (st', [Forward gr tr rgb_img uncalibed_depth_img, Se3Exp twist,
                Generate depth_generator extran uncalibed_pcd] @ evs))"

text \<open>
  The forward pass of one training batch (lines 133 to 147) for a model with parameters
  \<open>\<theta>\<close>: it returns \<^verbatim>\<open>loss\<close>, \<^verbatim>\<open>loss1\<close> and \<^verbatim>\<open>loss2\<close>. The loss objects built at lines
  118 and 119 are given by their constructor arguments: \<open>photo_loss\<close> is the scale of
  \<^verbatim>\<open>Photo_Loss(args.scale)\<close>, \<open>chamfer_loss\<close> the scale and the reduction of
  \<^verbatim>\<open>ChamferDistanceLoss(args.scale,'sum')\<close>.
\<close>

definition train_forward ::
  "('t, 'p, 'o, 's::{plus,times}) lib \<Rightarrow> 's args \<Rightarrow> 's \<Rightarrow> 's \<times> string \<Rightarrow> 's \<Rightarrow> 's \<Rightarrow>
   'p \<Rightarrow> bool \<Rightarrow> bool \<Rightarrow> 't batch \<Rightarrow>
   py_error + (('s \<times> 's \<times> 's) \<times> ('t, 'p, 'o, 's) event list)" where
  "train_forward L a photo_loss chamfer_loss alpha beta \<theta> tr gr b =
     (let rgb_img = b_img b;
          calibed_depth_img = b_depth_img b;
          calibed_pcd = b_pcd b
      in case b_InTran b of
           [] \<Rightarrow> Inl IndexError
         | K # _ \<Rightarrow>
             let img_shape = shape_hw L rgb_img;
                 depth_generator = DepthImgGenerator img_shape K (arg_pooling a);
                 ((d, p), evs) =
                    train_inner L \<theta> tr gr rgb_img depth_generator (nat (arg_inner_iter a))
                      (b_uncalibed_depth_img b, b_uncalibed_pcd b);
                 loss1 = Photo_Loss L photo_loss calibed_depth_img d;
                 loss2 = ChamferDistanceLoss L (fst chamfer_loss) (snd chamfer_loss) calibed_pcd p;
                 loss = alpha * loss1 + beta * loss2
             in Inr ((loss, loss1, loss2),
                  evs @ [PhotoLoss photo_loss calibed_depth_img d,
                         ChamferLoss (fst chamfer_loss) (snd chamfer_loss) calibed_pcd p]))"

text \<open>
  One training batch (lines 132 to 154): \<^verbatim>\<open>optimizer.zero_grad()\<close>, the forward pass,
  \<^verbatim>\<open>loss.backward()\<close> and \<^verbatim>\<open>optimizer.step()\<close>. \<^verbatim>\<open>backward\<close> raises when the loss was
  computed with the gradient mode off.
\<close>

definition train_batch ::
  "('t, 'p, 'o, 's::{plus,times}) lib \<Rightarrow> 's args \<Rightarrow> 's \<Rightarrow> 's \<times> string \<Rightarrow> 's \<Rightarrow> 's \<Rightarrow>
   ('p, 'o, 's) world \<Rightarrow> 't batch \<Rightarrow>
   py_error + (('s \<times> 's \<times> 's) \<times> ('p, 'o, 's) world \<times> ('t, 'p, 'o, 's) event list)" where
  "train_batch L a photo_loss chamfer_loss alpha beta w b =
     (let opt0 = zero_grad L (optimizer_state w);
          fwd = (\<lambda>\<theta>. train_forward L a photo_loss chamfer_loss alpha beta \<theta>
                        (model_training w) (grad_enabled w) b)
      in case fwd (model_params w) of
           Inl e \<Rightarrow> Inl e
         | Inr ((loss, loss1, loss2), evs) \<Rightarrow>
             if \<not> grad_enabled w then Inl RuntimeError
             else
               let loss_of = (\<lambda>\<theta>. case fwd \<theta> of Inr ((l, _), _) \<Rightarrow> l | Inl _ \<Rightarrow> loss);
                   (\<theta>', opt') = optimizer_step L opt0 (model_params w) loss_of
               in Inr ((loss, loss1, loss2),
                       w\<lparr>model_params := \<theta>', optimizer_state := opt'\<rparr>,
                       [ZeroGrad] @ evs @ [Backward loss, OptimizerStep]))"

text \<open>The loop over the training batches with the three running totals.\<close>

fun train_batches ::
  "('t, 'p, 'o, 's::{plus,times}) lib \<Rightarrow> 's args \<Rightarrow> 's \<Rightarrow> 's \<times> string \<Rightarrow> 's \<Rightarrow> 's \<Rightarrow>
   ('p, 'o, 's) world \<Rightarrow> 't batch list \<Rightarrow> 's \<times> 's \<times> 's \<Rightarrow>
   py_error + (('s \<times> 's \<times> 's) \<times> ('p, 'o, 's) world \<times> ('t, 'p, 'o, 's) event list)" where
  "train_batches L a photo_loss chamfer_loss alpha beta w [] tot = Inr (tot, w, [])"
| "train_batches L a photo_loss chamfer_loss alpha beta w (b # bs)
     (total_loss, total_photo_loss, total_chamfer_loss) =
     (case train_batch L a photo_loss chamfer_loss alpha beta w b of
        Inl e \<Rightarrow> Inl e
      | Inr ((loss, loss1, loss2), w', evs) \<Rightarrow>
          (case train_batches L a photo_loss chamfer_loss alpha beta w' bs
                  (total_loss + loss, total_photo_loss + loss1, total_chamfer_loss + loss2) of
             Inl e \<Rightarrow> Inl e
           | Inr (tot, w'', evs') \<Rightarrow> Inr (tot, w'', evs @ evs')))"

text \<open>\<^verbatim>\<open>os.path.join\<close> of two components on a POSIX system.\<close>

definition path_join :: "string \<Rightarrow> string \<Rightarrow> string" where
  "path_join d f =
     (if f \<noteq> [] \<and> hd f = CHR ''/'' then f
      else if d = [] \<or> last d = CHR ''/'' then d @ f
      else d @ ''/'' @ f)"

definition best_path :: "'s args \<Rightarrow> string" where
  "best_path a = path_join (arg_checkpoint_dir a) (arg_checkpoint_name a @ ''_best.pth'')"

definition last_path :: "'s args \<Rightarrow> string" where
  "last_path a = path_join (arg_checkpoint_dir a) (arg_checkpoint_name a @ ''_last.pth'')"

text \<open>The dictionary both \<^verbatim>\<open>torch.save\<close> calls build (lines 165 to 169 and 172 to 176).\<close>

definition checkpoint_dict ::
  "('p, 'o, 's) world \<Rightarrow> 's \<Rightarrow> int \<Rightarrow> ('p, 'o, 's) checkpoint" where
  "checkpoint_dict w min_loss epoch =
     [(''model'', CkModel (model_params w)),
      (''optimizer'', CkOptimizer (optimizer_state w)),
      (''min_loss'', CkFloat min_loss),
      (''epoch'', CkInt epoch)]"

definition torch_save ::
  "('p, 'o, 's) checkpoint \<Rightarrow> string \<Rightarrow> ('p, 'o, 's) world \<Rightarrow> ('p, 'o, 's) world" where
  "torch_save d path w = w\<lparr>files := (files w)(path \<mapsto> d)\<rparr>"

text \<open>
  One epoch (lines 124 to 178): the training batches, \<^verbatim>\<open>scheduler.step()\<close>, the
  validation pass, and the two checkpoints. The state carried from epoch to epoch is
  the world and \<^verbatim>\<open>min_loss\<close>. \<open>gamma\<close> is the decay the scheduler was built with.
\<close>

definition train_epoch ::
  "('t, 'p, 'o, 's::{plus,times,zero,inverse,ord}) lib \<Rightarrow> 's args \<Rightarrow>
   't batch list \<Rightarrow> 't batch list \<Rightarrow> 's \<Rightarrow> 's \<times> string \<Rightarrow> 's \<Rightarrow> 's \<Rightarrow> 's \<Rightarrow>
   ('p, 'o, 's) world \<times> 's \<Rightarrow> int \<Rightarrow>
   py_error + ((('p, 'o, 's) world \<times> 's) \<times> ('t, 'p, 'o, 's) event list)" where
  "train_epoch L a train_loader val_loader photo_loss chamfer_loss alpha beta gamma st epoch =
     (let (w, min_loss) = st;
          w1 = w\<lparr>model_training := True\<rparr>
      in case train_batches L a photo_loss chamfer_loss alpha beta w1 train_loader (0, 0, 0) of
           Inl e \<Rightarrow> Inl e
         | Inr ((total_loss, total_photo_loss, total_chamfer_loss), w2, evs) \<Rightarrow>
             if length train_loader = 0 then Inl ZeroDivisionError
             else
               let w3 = w2\<lparr>optimizer_state := scheduler_step L gamma (optimizer_state w2)\<rparr>
               in (case val L a val_loader w3 of
                    Inl e \<Rightarrow> Inl e
                  | Inr ((loss_dx, loss_dR, loss_dT), w4, evs') \<Rightarrow>
                      let (min_loss', w5, evs_best) =
                            (if loss_dx < min_loss
                             then (loss_dx,
                                   torch_save (checkpoint_dict w4 loss_dx epoch) (best_path a) w4,
                                   [TorchSave (best_path a) (checkpoint_dict w4 loss_dx epoch)])
                             else (min_loss, w4, []));
                          w6 = torch_save (checkpoint_dict w5 min_loss' epoch) (last_path a) w5
                      in Inr ((w6, min_loss'),
                              evs @ [SchedulerStep] @ evs' @ evs_best @
                              [TorchSave (last_path a) (checkpoint_dict w5 min_loss' epoch)])))"

text \<open>The loop over the epochs.\<close>

fun train_epochs ::
  "('t, 'p, 'o, 's::{plus,times,zero,inverse,ord}) lib \<Rightarrow> 's args \<Rightarrow>
   't batch list \<Rightarrow> 't batch list \<Rightarrow> 's \<Rightarrow> 's \<times> string \<Rightarrow> 's \<Rightarrow> 's \<Rightarrow> 's \<Rightarrow>
   ('p, 'o, 's) world \<times> 's \<Rightarrow> int list \<Rightarrow>
   py_error + ((('p, 'o, 's) world \<times> 's) \<times> ('t, 'p, 'o, 's) event list)" where
  "train_epochs L a train_loader val_loader photo_loss chamfer_loss alpha beta gamma st [] =
     Inr (st, [])"
| "train_epochs L a train_loader val_loader photo_loss chamfer_loss alpha beta gamma st (epoch # es) =
     (case train_epoch L a train_loader val_loader photo_loss chamfer_loss alpha beta gamma st epoch of
        Inl e \<Rightarrow> Inl e
      | Inr (st', evs) \<Rightarrow>
          (case train_epochs L a train_loader val_loader photo_loss chamfer_loss alpha beta gamma st' es of
             Inl e \<Rightarrow> Inl e
           | Inr (st'', evs') \<Rightarrow> Inr (st'', evs @ evs')))"

text \<open>\<^verbatim>\<open>range(a, b)\<close> as a list.\<close>

definition range2 :: "int \<Rightarrow> int \<Rightarrow> int list" where
  "range2 i j = map (\<lambda>k. i + int k) [0..<nat (j - i)]"

text \<open>
  Reading a checkpoint back (lines 97 to 101): the four lookups
  \<^verbatim>\<open>chkpt['model']\<close>, \<^verbatim>\<open>chkpt['optimizer']\<close>, \<^verbatim>\<open>chkpt['epoch']\<close> and \<^verbatim>\<open>chkpt['min_loss']\<close>
  in the order of the source. A missing file, a missing key and a value of the wrong
  kind raise. The result is the world with the loaded model and optimizer,
  \<^verbatim>\<open>start_epoch\<close> and \<^verbatim>\<open>min_loss\<close>.
\<close>

definition load_checkpoint ::
  "string \<Rightarrow> ('p, 'o, 's) world \<Rightarrow> py_error + (('p, 'o, 's) world \<times> int \<times> 's)" where
  "load_checkpoint path w =
     (case files w path of
        None \<Rightarrow> Inl FileNotFoundError
      | Some chkpt \<Rightarrow>
          (case map_of chkpt ''model'' of
             None \<Rightarrow> Inl KeyError
           | Some (CkModel \<theta>) \<Rightarrow>
               (case map_of chkpt ''optimizer'' of
                  None \<Rightarrow> Inl KeyError
                | Some (CkOptimizer opt) \<Rightarrow>
                    (case map_of chkpt ''epoch'' of
                       None \<Rightarrow> Inl KeyError
                     | Some (CkInt e) \<Rightarrow>
                         (case map_of chkpt ''min_loss'' of
                            None \<Rightarrow> Inl KeyError
                          | Some (CkFloat m) \<Rightarrow>
                              Inr (w\<lparr>model_params := \<theta>, optimizer_state := opt\<rparr>, e + 1, m)
                          | Some _ \<Rightarrow> Inl TypeError)
                     | Some _ \<Rightarrow> Inl TypeError)
                | Some _ \<Rightarrow> Inl TypeError)
           | Some _ \<Rightarrow> Inl TypeError))"

text \<open>
  \<^verbatim>\<open>train\<close> (lines 93 to 178). A new \<^verbatim>\<open>CalibNet\<close> is in training mode. A non-empty
  \<^verbatim>\<open>args.resume\<close> is true. The assignment \<^verbatim>\<open>args.device = 'cpu'\<close> changes the options
  object that \<^verbatim>\<open>val\<close> reads as well, so the changed options are what the epochs get.
  \<^verbatim>\<open>torch.device\<close> is taken to accept the device name.
\<close>

definition train ::
  "('t, 'p, 'o, 's::{plus,times,zero,inverse,ord}) lib \<Rightarrow> 's args \<Rightarrow>
   't batch list \<Rightarrow> 't batch list \<Rightarrow> ('p, 'o, 's) world \<Rightarrow>
   py_error + ((('p, 'o, 's) world \<times> 's) \<times> ('t, 'p, 'o, 's) event list)" where
  "train L a train_loader val_loader w =
     (let w0 = w\<lparr>model_params := model_init L, model_training := True\<rparr>;
          w1 = w0\<lparr>optimizer_state :=
                     sgd_init L (model_init L) (arg_lr0 a) (arg_momentum a) (arg_weight_decay a)\<rparr>
      in case (if arg_resume a \<noteq> []
               then (case load_checkpoint (arg_resume a) w1 of
                       Inl e \<Rightarrow> Inl e
                     | Inr (w2, start_epoch, min_loss) \<Rightarrow>
                         Inr (w2, start_epoch, min_loss, [TorchLoad (arg_resume a)]))
               else Inr (w1, 0, float_inf L, [])) of
           Inl e \<Rightarrow> Inl e
         | Inr (w2, start_epoch, min_loss, evs_load) \<Rightarrow>
             let a' = (if \<not> cuda_is_available L then a\<lparr>arg_device := ''cpu''\<rparr> else a);
                 device = arg_device a';
                 gamma = arg_lr_exp_decay a';
                 photo_loss = arg_scale a';
                 chamfer_loss = (arg_scale a', ''sum'');
                 alpha = arg_alpha a';
                 beta = arg_beta a'
             in (case train_epochs L a' train_loader val_loader photo_loss chamfer_loss alpha beta
                        gamma (w2, min_loss) (range2 start_epoch (arg_epoch a')) of
                   Inl e \<Rightarrow> Inl e
                 | Inr (st, evs) \<Rightarrow>
                     Inr (st, evs_load @ [CudaIsAvailable, ModelTo device] @ evs)))"

section \<open>The data loaders of the main block\<close>

text \<open>Lines 205 and 206: \<^verbatim>\<open>True if len(dataset) % args.batch_size == 1 else False\<close>.
  The remainder by zero raises; for every other divisor Python's \<^verbatim>\<open>%\<close> on integers is
  \<open>mod\<close>.\<close>

definition drop_last_flag :: "nat \<Rightarrow> int \<Rightarrow> py_error + bool" where
  "drop_last_flag len_dataset bs =
     (if bs = 0 then Inl ZeroDivisionError
      else Inr (if int len_dataset mod bs = 1 then True else False))"

text \<open>
  \<^verbatim>\<open>DataLoader(dataset, batch_size, shuffle=False, drop_last=...)\<close> of PyTorch: the samples
  in order, in consecutive batches of \<^verbatim>\<open>batch_size\<close>; the last batch may be shorter
  and is left out when \<^verbatim>\<open>drop_last\<close> is set. A batch size that is not positive is
  refused.
\<close>

fun chunks :: "nat \<Rightarrow> 'a list \<Rightarrow> 'a list list" where
  "chunks n xs = (if n = 0 \<or> xs = [] then [] else take n xs # chunks n (drop n xs))"

declare chunks.simps [simp del]

definition DataLoader :: "'a list \<Rightarrow> int \<Rightarrow> bool \<Rightarrow> py_error + 'a list list" where
  "DataLoader dataset bs drop_last =
     (if bs \<le> 0 then Inl ValueError
      else Inr (if drop_last then filter (\<lambda>c. length c = nat bs) (chunks (nat bs) dataset)
                else chunks (nat bs) dataset))"

text \<open>Lines 205 to 209: both flags, then both loaders.\<close>

definition main_loaders ::
  "'s args \<Rightarrow> 'a list \<Rightarrow> 'a list \<Rightarrow> py_error + ('a list list \<times> 'a list list)" where
  "main_loaders a train_dataset val_dataset =
     (case drop_last_flag (length train_dataset) (arg_batch_size a) of
        Inl e \<Rightarrow> Inl e
      | Inr train_drop_last \<Rightarrow>
          (case drop_last_flag (length val_dataset) (arg_batch_size a) of
             Inl e \<Rightarrow> Inl e
           | Inr val_drop_last \<Rightarrow>
               (case DataLoader train_dataset (arg_batch_size a) train_drop_last of
                  Inl e \<Rightarrow> Inl e
                | Inr train_dataloader \<Rightarrow>
                    (case DataLoader val_dataset (arg_batch_size a) val_drop_last of
                       Inl e \<Rightarrow> Inl e
                     | Inr val_dataloder \<Rightarrow> Inr (train_dataloader, val_dataloder)))))"

section \<open>Notions of the specification\<close>

text \<open>
  The incremental transforms of a run are the transforms handed to the depth-image
  generator, in order. The accumulated transform the specification describes is their
  product from the left, starting from the identity:
  accumulated = accumulated \<open>\<cdot>\<close> incremental at each step.
\<close>

fun incremental_transforms :: "('t, 'p, 'o, 's) event list \<Rightarrow> 't list" where
  "incremental_transforms [] = []"
| "incremental_transforms (Generate g extran p # evs) = extran # incremental_transforms evs"
| "incremental_transforms (e # evs) = incremental_transforms evs"

definition accumulated_product :: "('t, 'p, 'o, 's) lib \<Rightarrow> nat \<Rightarrow> 't list \<Rightarrow> 't" where
  "accumulated_product L B extrans = foldl (bmm L) (eye4_repeat L B) extrans"

text \<open>The kind of a call, for speaking about the order of the calls of a run.\<close>

datatype call = Predict | ExpMap | Reproject | Compose | PoseError | Photometric | Chamfer | Other

fun call_of :: "('t, 'p, 'o, 's) event \<Rightarrow> call" where
  "call_of (Forward gr tr rgb d) = Predict"
| "call_of (Se3Exp tw) = ExpMap"
| "call_of (Generate g ex p) = Reproject"
| "call_of (Bmm g ex) = Compose"
| "call_of (GeodesicDistance g i) = PoseError"
| "call_of (PhotoLoss s x y) = Photometric"
| "call_of (ChamferLoss s r x y) = Chamfer"
| "call_of e = Other"

text \<open>The twist the predictor gives for a depth image: the two outputs of the model,
  concatenated (line 77 and line 143).\<close>

definition twist_of :: "('t, 'p, 'o, 's) lib \<Rightarrow> 'p \<Rightarrow> bool \<Rightarrow> 't \<Rightarrow> 't \<Rightarrow> 't" where
  "twist_of L \<theta> tr rgb d = cat L (fst (forward L \<theta> tr rgb d)) (snd (forward L \<theta> tr rgb d))"

text \<open>
  The weighted loss of a training batch as the specification words it: \<open>al\<close> times the
  photometric loss between the reference depth image and the depth image after the inner
  iterations, plus \<open>be\<close> times the chamfer loss between the reference point cloud and the
  point cloud after the inner iterations. It is a function of the model parameters.
\<close>

definition weighted_loss ::
  "('t, 'p, 'o, 's::{plus,times}) lib \<Rightarrow> 's args \<Rightarrow> 's \<Rightarrow> 's \<times> string \<Rightarrow> 's \<Rightarrow> 's \<Rightarrow>
   bool \<Rightarrow> bool \<Rightarrow> 't batch \<Rightarrow> 'p \<Rightarrow> 's" where
  "weighted_loss L a ph ch al be tr gr b \<theta> =
     (let (d, p) = fst (train_inner L \<theta> tr gr (b_img b)
                     (DepthImgGenerator (shape_hw L (b_img b)) (hd (b_InTran b)) (arg_pooling a))
                     (nat (arg_inner_iter a)) (b_uncalibed_depth_img b, b_uncalibed_pcd b))
      in al * Photo_Loss L ph (b_depth_img b) d +
         be * ChamferDistanceLoss L (fst ch) (snd ch) (b_pcd b) p)"

text \<open>The calls a validation pass may make, for a gradient mode and a model mode; the
  calls of the set-up of \<^verbatim>\<open>train\<close>; and the checkpoints a run writes, in order.\<close>

fun val_event :: "bool \<Rightarrow> bool \<Rightarrow> ('t, 'p, 'o, 's) event \<Rightarrow> bool" where
  "val_event gr tr (Forward g t rgb d) = (g = gr \<and> t = tr)"
| "val_event gr tr (Se3Exp tw) = True"
| "val_event gr tr (Generate g ex p) = True"
| "val_event gr tr (Bmm g ex) = True"
| "val_event gr tr (GeodesicDistance g i) = True"
| "val_event gr tr e = False"

fun setup_event :: "('t, 'p, 'o, 's) event \<Rightarrow> bool" where
  "setup_event CudaIsAvailable = True"
| "setup_event (ModelTo dev) = True"
| "setup_event (TorchLoad path) = True"
| "setup_event e = False"

fun saved :: "('t, 'p, 'o, 's) event list \<Rightarrow> (string \<times> ('p, 'o, 's) checkpoint) list" where
  "saved [] = []"
| "saved (TorchSave path ck # evs) = (path, ck) # saved evs"
| "saved (e # evs) = saved evs"

section \<open>A concrete instance\<close>

text \<open>
  An instance on which the script can be run by evaluation. A tensor is an integer
  matrix (a batch of one element). The predictor always answers with the twist without
  rotation and with translation \<open>(1, 0, 0)\<close>; the exponential map of a twist without
  rotation is the translation by its translation part; a point cloud is a matrix of
  homogeneous columns, and the generator multiplies it by the transform and reads the
  depths off its third row. The losses and the pose error only tell equal from unequal.
\<close>

type_synonym matrix = "int list list"

definition mat_mul :: "matrix \<Rightarrow> matrix \<Rightarrow> matrix" where
  "mat_mul A B = map (\<lambda>row. map (\<lambda>col. sum_list (map2 (*) row col)) (transpose B)) A"

definition eye4 :: matrix where
  "eye4 = [[1, 0, 0, 0], [0, 1, 0, 0], [0, 0, 1, 0], [0, 0, 0, 1]]"

definition translation_exp :: "matrix \<Rightarrow> matrix" where
  "translation_exp twist =
     (case twist of
        [[wx, wy, wz, vx, vy, vz]] \<Rightarrow> [[1, 0, 0, vx], [0, 1, 0, vy], [0, 0, 1, vz], [0, 0, 0, 1]]
      | _ \<Rightarrow> eye4)"

definition example_lib :: "(matrix, nat, nat, real) lib" where
  "example_lib =
     \<lparr>cuda_is_available = False,
      model_init = 0,
      sgd_init = (\<lambda>\<theta> lr m wd. 0),
      forward = (\<lambda>\<theta> tr rgb d. ([[0, 0, 0]], [[1, 0, 0]])),
      cat = map2 (@),
      se3_exp = translation_exp,
      generate = (\<lambda>g extran pcd. (take 1 (drop 2 (mat_mul extran pcd)), mat_mul extran pcd)),
      size0 = (\<lambda>t. 1),
      shape_hw = (\<lambda>t. (length t, length (hd t))),
      eye4_repeat = (\<lambda>B. eye4),
      bmm = mat_mul,
      geodesic_distance = (\<lambda>g igt. (0, if g = igt then 0 else 1)),
      Photo_Loss = (\<lambda>s x y. if x = y then 0 else s),
      ChamferDistanceLoss = (\<lambda>s r x y. if x = y then 0 else s),
      zero_grad = (\<lambda>opt. opt),
      optimizer_step = (\<lambda>opt \<theta> loss. (Suc \<theta>, Suc opt)),
      scheduler_step = (\<lambda>g opt. opt),
      float_of_len = real,
      float_inf = 1000000\<rparr>"

definition example_args :: "real args" where
  "example_args =
     \<lparr>arg_batch_size = 2, arg_device = ''cuda:0'', arg_resume = [], arg_epoch = 2,
      arg_checkpoint_dir = ''checkpoint/'', arg_checkpoint_name = ''model'',
      arg_lr0 = 1, arg_momentum = 1, arg_weight_decay = 1, arg_lr_exp_decay = 1,
      arg_scale = 50, arg_inner_iter = 1, arg_alpha = 1, arg_beta = 2, arg_pooling = 5\<rparr>"

text \<open>A batch whose point cloud is off by \<open>-1\<close> along the first axis, so that the
  predicted translation is the right correction.\<close>

definition example_batch :: "matrix batch" where
  "example_batch =
     \<lparr>b_img = [[7, 7], [7, 7]],
      b_depth_img = [[5, 6]],
      b_pcd = [[0, 1], [0, 0], [5, 6], [1, 1]],
      b_uncalibed_pcd = [[-1, 0], [0, 0], [5, 6], [1, 1]],
      b_uncalibed_depth_img = [[5, 6]],
      b_igt = [[1, 0, 0, 1], [0, 1, 0, 0], [0, 0, 1, 0], [0, 0, 0, 1]],
      b_InTran = [[[1, 0, 0], [0, 1, 0], [0, 0, 1]]]\<rparr>"

definition example_world :: "(nat, nat, real) world" where
  "example_world =
     \<lparr>model_params = 0, model_training = True, optimizer_state = 0, grad_enabled = True,
      files = Map.empty\<rparr>"

text \<open>The same batch with the intrinsics of a second batch element.\<close>

definition example_batch2 :: "matrix batch" where
  "example_batch2 =
     example_batch\<lparr>b_InTran := [[[1, 0, 0], [0, 1, 0], [0, 0, 1]], [[2, 0, 0], [0, 2, 0], [0, 0, 1]]]\<rparr>"

lemmas example_defs = example_lib_def example_args_def example_world_def example_batch_def

section \<open>The inner loops\<close>

lemma val_inner_g0:
  "snd (snd (fst (val_inner L \<theta> tr gr rgb gen n (d, p, g)))) = g"
  by (induction n arbitrary: d p) (simp_all add: Let_def case_prod_beta)

lemma val_inner_train_inner:
  "fst (val_inner L \<theta> tr gr rgb gen n (d, p, g)) =
     (fst (fst (train_inner L \<theta> tr gr rgb gen n (d, p))),
      snd (fst (train_inner L \<theta> tr gr rgb gen n (d, p))), g)"
  by (induction n arbitrary: d p) (simp_all add: Let_def case_prod_beta)

lemma train_inner_add:
  "train_inner L \<theta> tr gr rgb gen (m + n) st =
     (fst (train_inner L \<theta> tr gr rgb gen n (fst (train_inner L \<theta> tr gr rgb gen m st))),
      snd (train_inner L \<theta> tr gr rgb gen m st) @
      snd (train_inner L \<theta> tr gr rgb gen n (fst (train_inner L \<theta> tr gr rgb gen m st))))"
proof (induction m arbitrary: st)
  case 0
  show ?case by simp
next
  case (Suc m)
  obtain d p where st: "st = (d, p)" by (cases st)
  show ?case unfolding st by (simp add: Let_def case_prod_beta Suc.IH)
qed

lemma val_inner_add:
  "val_inner L \<theta> tr gr rgb gen (m + n) st =
     (fst (val_inner L \<theta> tr gr rgb gen n (fst (val_inner L \<theta> tr gr rgb gen m st))),
      snd (val_inner L \<theta> tr gr rgb gen m st) @
      snd (val_inner L \<theta> tr gr rgb gen n (fst (val_inner L \<theta> tr gr rgb gen m st))))"
proof (induction m arbitrary: st)
  case 0
  show ?case by simp
next
  case (Suc m)
  obtain d p g where st: "st = (d, p, g)" by (cases st)
  show ?case unfolding st by (simp add: Let_def case_prod_beta Suc.IH)
qed

lemma train_inner_calls:
  "map call_of (snd (train_inner L \<theta> tr gr rgb gen n st)) =
     concat (replicate n [Predict, ExpMap, Reproject])"
proof (induction n arbitrary: st)
  case 0
  show ?case by simp
next
  case (Suc n)
  obtain d p where st: "st = (d, p)" by (cases st)
  show ?case unfolding st by (simp add: Let_def case_prod_beta Suc.IH)
qed

lemma val_inner_calls:
  "map call_of (snd (val_inner L \<theta> tr gr rgb gen n st)) =
     concat (replicate n [Predict, ExpMap, Reproject, Compose])"
proof (induction n arbitrary: st)
  case 0
  show ?case by simp
next
  case (Suc n)
  obtain d p g where st: "st = (d, p, g)" by (cases st)
  show ?case unfolding st by (simp add: Let_def case_prod_beta Suc.IH)
qed

lemma count_blocks3:
  "length (filter (\<lambda>c. c = Predict) (concat (replicate n [Predict, ExpMap, Reproject]))) = n"
  by (induction n) simp_all

lemma count_blocks4:
  "length (filter (\<lambda>c. c = Predict) (concat (replicate n [Predict, ExpMap, Reproject, Compose]))) = n"
  by (induction n) simp_all

lemma train_inner_one:
  "train_inner L \<theta> tr gr rgb gen (Suc 0) (d, p) =
     (generate L gen (se3_exp L (cat L (fst (forward L \<theta> tr rgb d)) (snd (forward L \<theta> tr rgb d)))) p,
      [Forward gr tr rgb d,
       Se3Exp (cat L (fst (forward L \<theta> tr rgb d)) (snd (forward L \<theta> tr rgb d))),
       Generate gen (se3_exp L (cat L (fst (forward L \<theta> tr rgb d)) (snd (forward L \<theta> tr rgb d)))) p])"
  by (simp add: Let_def case_prod_beta)

lemma val_inner_one:
  "val_inner L \<theta> tr gr rgb gen (Suc 0) (d, p, g) =
     ((fst (generate L gen (se3_exp L (cat L (fst (forward L \<theta> tr rgb d)) (snd (forward L \<theta> tr rgb d)))) p),
       snd (generate L gen (se3_exp L (cat L (fst (forward L \<theta> tr rgb d)) (snd (forward L \<theta> tr rgb d)))) p),
       g),
      [Forward gr tr rgb d,
       Se3Exp (cat L (fst (forward L \<theta> tr rgb d)) (snd (forward L \<theta> tr rgb d))),
       Generate gen (se3_exp L (cat L (fst (forward L \<theta> tr rgb d)) (snd (forward L \<theta> tr rgb d)))) p,
       Bmm g (se3_exp L (cat L (fst (forward L \<theta> tr rgb d)) (snd (forward L \<theta> tr rgb d))))])"
  by (simp add: Let_def case_prod_beta)

lemma train_inner_generators:
  "Generate g ex p \<in> set (snd (train_inner L \<theta> tr gr rgb gen n st)) \<Longrightarrow> g = gen"
proof (induction n arbitrary: st)
  case 0
  then show ?case by simp
next
  case (Suc n)
  obtain d q where st: "st = (d, q)" by (cases st)
  from Suc.prems show ?case
    unfolding st by (auto simp: Let_def case_prod_beta dest: Suc.IH)
qed

lemma val_inner_generators:
  "Generate g ex p \<in> set (snd (val_inner L \<theta> tr gr rgb gen n st)) \<Longrightarrow> g = gen"
proof (induction n arbitrary: st)
  case 0
  then show ?case by simp
next
  case (Suc n)
  obtain d q g0 where st: "st = (d, q, g0)" by (cases st)
  from Suc.prems show ?case
    unfolding st by (auto simp: Let_def case_prod_beta dest: Suc.IH)
qed

lemma count_reproject3:
  "length (filter (\<lambda>c. c = Reproject) (concat (replicate n [Predict, ExpMap, Reproject]))) = n"
  by (induction n) simp_all

lemma count_reproject4:
  "length (filter (\<lambda>c. c = Reproject) (concat (replicate n [Predict, ExpMap, Reproject, Compose]))) = n"
  by (induction n) simp_all

section \<open>The accumulated transform of the validation pass\<close>

text \<open>
  Whatever the collaborators are, the transform that \<^verbatim>\<open>val\<close> hands to
  \<^verbatim>\<open>geodesic_distance\<close> is the identity it started from.
\<close>

lemma val_batch_geodesic_identity:
  assumes "val_batch L a w b = Inr (r, evs)"
  shows "last evs = GeodesicDistance (eye4_repeat L (size0 L (b_img b))) (b_igt b)"
    and "r = geodesic_distance L (eye4_repeat L (size0 L (b_img b))) (b_igt b)"
proof -
  obtain K Ks where K: "b_InTran b = K # Ks"
    using assms by (cases "b_InTran b") (simp_all add: val_batch_def Let_def)
  define gen where "gen = DepthImgGenerator (shape_hw L (b_img b)) K (arg_pooling a)"
  define I where "I = eye4_repeat L (size0 L (b_img b))"
  define res where "res = val_inner L (model_params w) (model_training w) (grad_enabled w)
      (b_img b) gen (nat (arg_inner_iter a)) (b_uncalibed_depth_img b, b_uncalibed_pcd b, I)"
  have g: "snd (snd (fst res)) = I"
    unfolding res_def by (rule val_inner_g0)
  have "val_batch L a w b =
          Inr (geodesic_distance L (snd (snd (fst res))) (b_igt b),
               snd res @ [GeodesicDistance (snd (snd (fst res))) (b_igt b)])"
    by (simp add: val_batch_def K Let_def case_prod_beta gen_def I_def res_def)
  with assms g have "r = geodesic_distance L I (b_igt b)"
    and "evs = snd res @ [GeodesicDistance I (b_igt b)]"
    by simp_all
  then show "last evs = GeodesicDistance (eye4_repeat L (size0 L (b_img b))) (b_igt b)"
    and "r = geodesic_distance L (eye4_repeat L (size0 L (b_img b))) (b_igt b)"
    by (simp_all add: I_def)
qed

text \<open>
  Claim C1: after the inner iterations of \<^verbatim>\<open>val\<close>, the accumulated transform \<^verbatim>\<open>g0\<close>
  handed to \<^verbatim>\<open>geodesic_distance\<close> is the ordered product of the incremental transforms.
  The code does not do this. On the example batch, with one inner iteration, the one
  incremental transform is the translation by \<open>(1, 0, 0)\<close>, so the product is that
  translation; the transform handed to \<^verbatim>\<open>geodesic_distance\<close> is the identity.
\<close>

theorem val_passes_identity_to_geodesic_distance:
  "(case val_batch example_lib example_args example_world example_batch of
      Inl e \<Rightarrow> False
    | Inr (r, evs) \<Rightarrow>
        last evs = GeodesicDistance eye4 (b_igt example_batch) \<and>
        accumulated_product example_lib 1 (incremental_transforms evs) =
          [[1, 0, 0, 1], [0, 1, 0, 0], [0, 0, 1, 0], [0, 0, 0, 1]] \<and>
        accumulated_product example_lib 1 (incremental_transforms evs) \<noteq> eye4)"
  by (simp add: val_batch_def example_defs DepthImgGenerator_def Let_def translation_exp_def
        eye4_def mat_mul_def accumulated_product_def)

section \<open>One batch\<close>

lemma val_batch_Inr:
  assumes "b_InTran b = K # Ks"
  shows "val_batch L a w b =
     Inr (geodesic_distance L (eye4_repeat L (size0 L (b_img b))) (b_igt b),
          snd (val_inner L (model_params w) (model_training w) (grad_enabled w) (b_img b)
                 (DepthImgGenerator (shape_hw L (b_img b)) K (arg_pooling a))
                 (nat (arg_inner_iter a))
                 (b_uncalibed_depth_img b, b_uncalibed_pcd b, eye4_repeat L (size0 L (b_img b)))) @
          [GeodesicDistance (eye4_repeat L (size0 L (b_img b))) (b_igt b)])"
  by (simp add: val_batch_def assms Let_def case_prod_beta val_inner_g0)

lemma train_forward_Inr:
  assumes "b_InTran b = K # Ks"
  shows "train_forward L a ph ch al be \<theta> tr gr b =
     (let res = train_inner L \<theta> tr gr (b_img b)
                  (DepthImgGenerator (shape_hw L (b_img b)) K (arg_pooling a))
                  (nat (arg_inner_iter a)) (b_uncalibed_depth_img b, b_uncalibed_pcd b);
          loss1 = Photo_Loss L ph (b_depth_img b) (fst (fst res));
          loss2 = ChamferDistanceLoss L (fst ch) (snd ch) (b_pcd b) (snd (fst res))
      in Inr ((al * loss1 + be * loss2, loss1, loss2),
              snd res @ [PhotoLoss ph (b_depth_img b) (fst (fst res)),
                         ChamferLoss (fst ch) (snd ch) (b_pcd b) (snd (fst res))]))"
  by (simp add: train_forward_def assms Let_def case_prod_beta)

lemma count_calls:
  "length (filter (\<lambda>e. call_of e = c) evs) = length (filter (\<lambda>x. x = c) (map call_of evs))"
  by (induction evs) simp_all

lemma train_batch_Inr:
  assumes K: "b_InTran b = K # Ks" and gr: "grad_enabled w"
  shows "train_batch L a ph ch al be w b =
     (let res = train_inner L (model_params w) (model_training w) (grad_enabled w) (b_img b)
                  (DepthImgGenerator (shape_hw L (b_img b)) K (arg_pooling a))
                  (nat (arg_inner_iter a)) (b_uncalibed_depth_img b, b_uncalibed_pcd b);
          loss1 = Photo_Loss L ph (b_depth_img b) (fst (fst res));
          loss2 = ChamferDistanceLoss L (fst ch) (snd ch) (b_pcd b) (snd (fst res));
          loss_of = weighted_loss L a ph ch al be (model_training w) (grad_enabled w) b;
          upd = optimizer_step L (zero_grad L (optimizer_state w)) (model_params w) loss_of
      in Inr ((loss_of (model_params w), loss1, loss2),
              w\<lparr>model_params := fst upd, optimizer_state := snd upd\<rparr>,
              [ZeroGrad] @ snd res @
              [PhotoLoss ph (b_depth_img b) (fst (fst res)),
               ChamferLoss (fst ch) (snd ch) (b_pcd b) (snd (fst res)),
               Backward (loss_of (model_params w)), OptimizerStep]))"
proof -
  have wl: "weighted_loss L a ph ch al be tr' gr' b =
      (\<lambda>\<theta>. al * Photo_Loss L ph (b_depth_img b)
                   (fst (fst (train_inner L \<theta> tr' gr' (b_img b)
                     (DepthImgGenerator (shape_hw L (b_img b)) K (arg_pooling a))
                     (nat (arg_inner_iter a)) (b_uncalibed_depth_img b, b_uncalibed_pcd b)))) +
            be * ChamferDistanceLoss L (fst ch) (snd ch) (b_pcd b)
                   (snd (fst (train_inner L \<theta> tr' gr' (b_img b)
                     (DepthImgGenerator (shape_hw L (b_img b)) K (arg_pooling a))
                     (nat (arg_inner_iter a)) (b_uncalibed_depth_img b, b_uncalibed_pcd b)))))"
    for tr' gr'
    by (rule ext) (simp add: weighted_loss_def K Let_def case_prod_beta)
  show ?thesis
    unfolding train_batch_def
    by (simp add: wl gr Let_def case_prod_beta train_forward_Inr [OF K])
qed

text \<open>The two functions on the example batch.\<close>

lemma example_val_batch:
  "val_batch example_lib example_args example_world example_batch =
     Inr ((0, 1),
       [Forward True True [[7, 7], [7, 7]] [[5, 6]],
        Se3Exp [[0, 0, 0, 1, 0, 0]],
        Generate \<lparr>gen_shape = (2, 2), gen_InTran = [[1, 0, 0], [0, 1, 0], [0, 0, 1]],
                    gen_pooling = 5\<rparr>
          [[1, 0, 0, 1], [0, 1, 0, 0], [0, 0, 1, 0], [0, 0, 0, 1]]
          [[- 1, 0], [0, 0], [5, 6], [1, 1]],
        Bmm [[1, 0, 0, 0], [0, 1, 0, 0], [0, 0, 1, 0], [0, 0, 0, 1]]
          [[1, 0, 0, 1], [0, 1, 0, 0], [0, 0, 1, 0], [0, 0, 0, 1]],
        GeodesicDistance [[1, 0, 0, 0], [0, 1, 0, 0], [0, 0, 1, 0], [0, 0, 0, 1]]
          [[1, 0, 0, 1], [0, 1, 0, 0], [0, 0, 1, 0], [0, 0, 0, 1]]])"
  by (simp add: val_batch_def example_defs DepthImgGenerator_def Let_def translation_exp_def
        eye4_def mat_mul_def)

lemma example_train_forward:
  "train_forward example_lib example_args 50 (50, ''sum'') 1 2 \<theta> True True example_batch =
     Inr ((0, 0, 0),
       [Forward True True [[7, 7], [7, 7]] [[5, 6]],
        Se3Exp [[0, 0, 0, 1, 0, 0]],
        Generate \<lparr>gen_shape = (2, 2), gen_InTran = [[1, 0, 0], [0, 1, 0], [0, 0, 1]],
                    gen_pooling = 5\<rparr>
          [[1, 0, 0, 1], [0, 1, 0, 0], [0, 0, 1, 0], [0, 0, 0, 1]]
          [[- 1, 0], [0, 0], [5, 6], [1, 1]],
        PhotoLoss 50 [[5, 6]] [[5, 6]],
        ChamferLoss 50 ''sum'' [[0, 1], [0, 0], [5, 6], [1, 1]]
          [[0, 1], [0, 0], [5, 6], [1, 1]]])"
  by (simp add: train_forward_def example_defs DepthImgGenerator_def Let_def translation_exp_def
        eye4_def mat_mul_def)

section \<open>The refinement loop\<close>

text \<open>
  Claim C3: at every inner iteration only the incremental transform of that iteration,
  the exponential map of the twist predicted from the current depth image, is applied
  to the running point cloud. For both loops, the state after \<open>k + 1\<close> iterations is the
  generator applied to that transform and the point cloud after \<open>k\<close> iterations, and
  these are the arguments of the call. In \<^verbatim>\<open>val\<close> the accumulated transform is only
  carried along; the depth image and the point cloud are those of the loop of
  \<^verbatim>\<open>train\<close>, which has no accumulated transform.
\<close>

theorem incremental_transform_applied:
  "(let (d, p) = fst (train_inner L \<theta> tr gr rgb gen k st);
        extran = se3_exp L (twist_of L \<theta> tr rgb d)
    in train_inner L \<theta> tr gr rgb gen (Suc k) st =
         (generate L gen extran p,
          snd (train_inner L \<theta> tr gr rgb gen k st) @
          [Forward gr tr rgb d, Se3Exp (twist_of L \<theta> tr rgb d), Generate gen extran p])) \<and>
   (let (d, p, g0) = fst (val_inner L \<theta> tr gr rgb gen k vst);
        extran = se3_exp L (twist_of L \<theta> tr rgb d)
    in val_inner L \<theta> tr gr rgb gen (Suc k) vst =
         ((fst (generate L gen extran p), snd (generate L gen extran p), g0),
          snd (val_inner L \<theta> tr gr rgb gen k vst) @
          [Forward gr tr rgb d, Se3Exp (twist_of L \<theta> tr rgb d), Generate gen extran p,
           Bmm g0 extran])) \<and>
   fst (val_inner L \<theta> tr gr rgb gen n (d0, p0, g1)) =
     (fst (fst (train_inner L \<theta> tr gr rgb gen n (d0, p0))),
      snd (fst (train_inner L \<theta> tr gr rgb gen n (d0, p0))), g1)"
proof -
  obtain d p where tk: "fst (train_inner L \<theta> tr gr rgb gen k st) = (d, p)"
    by (cases "fst (train_inner L \<theta> tr gr rgb gen k st)")
  obtain d' p' g where vk: "fst (val_inner L \<theta> tr gr rgb gen k vst) = (d', p', g)"
    by (cases "fst (val_inner L \<theta> tr gr rgb gen k vst)")
  have t: "train_inner L \<theta> tr gr rgb gen (k + Suc 0) st =
      (fst (train_inner L \<theta> tr gr rgb gen (Suc 0) (d, p)),
       snd (train_inner L \<theta> tr gr rgb gen k st) @ snd (train_inner L \<theta> tr gr rgb gen (Suc 0) (d, p)))"
    by (simp only: train_inner_add tk)
  have v: "val_inner L \<theta> tr gr rgb gen (k + Suc 0) vst =
      (fst (val_inner L \<theta> tr gr rgb gen (Suc 0) (d', p', g)),
       snd (val_inner L \<theta> tr gr rgb gen k vst) @ snd (val_inner L \<theta> tr gr rgb gen (Suc 0) (d', p', g)))"
    by (simp only: val_inner_add vk)
  show ?thesis
    using t v val_inner_train_inner [of L \<theta> tr gr rgb gen n d0 p0 g1]
    by (simp add: tk vk train_inner_one val_inner_one twist_of_def
          del: train_inner.simps val_inner.simps)
qed


text \<open>
  Claim C2: a refinement run makes exactly \<^verbatim>\<open>args.inner_iter\<close> iterations, each one the
  model call, then the exponential map, then the reprojection. In \<^verbatim>\<open>val\<close> the
  accumulated transform starts as the identity; in both functions the first model call
  gets the uncalibrated depth image and the first reprojection the uncalibrated point
  cloud; in \<^verbatim>\<open>train\<close> the two losses get the depth image and the point cloud that the
  last reprojection returned.
\<close>

theorem refinement_run_iterations:
  assumes n: "0 \<le> arg_inner_iter a" and K: "b_InTran b = K # Ks"
  shows "(\<exists>r evs. val_batch L a w b = Inr (r, evs) \<and>
            map call_of evs =
              concat (replicate (nat (arg_inner_iter a)) [Predict, ExpMap, Reproject, Compose]) @
              [PoseError] \<and>
            int (length (filter (\<lambda>e. call_of e = Predict) evs)) = arg_inner_iter a \<and>
            (0 < arg_inner_iter a \<longrightarrow>
               (\<exists>tw ex. take 4 evs =
                  [Forward (grad_enabled w) (model_training w) (b_img b) (b_uncalibed_depth_img b),
                   Se3Exp tw,
                   Generate (DepthImgGenerator (shape_hw L (b_img b)) K (arg_pooling a)) ex
                     (b_uncalibed_pcd b),
                   Bmm (eye4_repeat L (size0 L (b_img b))) ex]))) \<and>
         (\<exists>r evs. train_forward L a ph ch al be \<theta> tr gr b = Inr (r, evs) \<and>
            map call_of evs =
              concat (replicate (nat (arg_inner_iter a)) [Predict, ExpMap, Reproject]) @
              [Photometric, Chamfer] \<and>
            int (length (filter (\<lambda>e. call_of e = Predict) evs)) = arg_inner_iter a \<and>
            (0 < arg_inner_iter a \<longrightarrow>
               (\<exists>tw ex. take 3 evs =
                  [Forward gr tr (b_img b) (b_uncalibed_depth_img b),
                   Se3Exp tw,
                   Generate (DepthImgGenerator (shape_hw L (b_img b)) K (arg_pooling a)) ex
                     (b_uncalibed_pcd b)]) \<and>
               (\<exists>ex p. drop (length evs - 3) evs =
                  [Generate (DepthImgGenerator (shape_hw L (b_img b)) K (arg_pooling a)) ex p,
                   PhotoLoss ph (b_depth_img b)
                     (fst (generate L (DepthImgGenerator (shape_hw L (b_img b)) K (arg_pooling a)) ex p)),
                   ChamferLoss (fst ch) (snd ch) (b_pcd b)
                     (snd (generate L (DepthImgGenerator (shape_hw L (b_img b)) K (arg_pooling a)) ex p))])))"
proof -
  define gen where "gen = DepthImgGenerator (shape_hw L (b_img b)) K (arg_pooling a)"
  define N where "N = nat (arg_inner_iter a)"
  define I where "I = eye4_repeat L (size0 L (b_img b))"
  define vres where "vres = val_inner L (model_params w) (model_training w) (grad_enabled w)
      (b_img b) gen N (b_uncalibed_depth_img b, b_uncalibed_pcd b, I)"
  define tres where "tres = train_inner L \<theta> tr gr (b_img b) gen N
      (b_uncalibed_depth_img b, b_uncalibed_pcd b)"
  define vevs where "vevs = snd vres @ [GeodesicDistance I (b_igt b)]"
  define tevs where "tevs = snd tres @ [PhotoLoss ph (b_depth_img b) (fst (fst tres)),
                         ChamferLoss (fst ch) (snd ch) (b_pcd b) (snd (fst tres))]"
  have intN: "int N = arg_inner_iter a"
    using n by (simp add: N_def)
  have v: "val_batch L a w b = Inr (geodesic_distance L I (b_igt b), vevs)"
    by (simp add: val_batch_Inr [OF K] vevs_def vres_def gen_def N_def I_def)
  have t: "train_forward L a ph ch al be \<theta> tr gr b =
      Inr ((al * Photo_Loss L ph (b_depth_img b) (fst (fst tres)) +
            be * ChamferDistanceLoss L (fst ch) (snd ch) (b_pcd b) (snd (fst tres)),
            Photo_Loss L ph (b_depth_img b) (fst (fst tres)),
            ChamferDistanceLoss L (fst ch) (snd ch) (b_pcd b) (snd (fst tres))), tevs)"
    by (simp add: train_forward_Inr [OF K] tevs_def tres_def gen_def N_def Let_def)
  have vcalls: "map call_of vevs =
      concat (replicate N [Predict, ExpMap, Reproject, Compose]) @ [PoseError]"
    by (simp add: vevs_def vres_def val_inner_calls)
  have tcalls: "map call_of tevs =
      concat (replicate N [Predict, ExpMap, Reproject]) @ [Photometric, Chamfer]"
    by (simp add: tevs_def tres_def train_inner_calls)
  have vcount: "int (length (filter (\<lambda>e. call_of e = Predict) vevs)) = arg_inner_iter a"
    by (simp add: count_calls vcalls count_blocks4 intN)
  have tcount: "int (length (filter (\<lambda>e. call_of e = Predict) tevs)) = arg_inner_iter a"
    by (simp add: count_calls tcalls count_blocks3 intN)
  have vfirst: "\<exists>tw ex. take 4 vevs =
                  [Forward (grad_enabled w) (model_training w) (b_img b) (b_uncalibed_depth_img b),
                   Se3Exp tw, Generate gen ex (b_uncalibed_pcd b), Bmm I ex]"
    if pos: "0 < arg_inner_iter a"
  proof -
    obtain m where m: "N = Suc m"
      using pos intN by (cases N) simp_all
    show ?thesis
      by (simp add: vevs_def vres_def m Let_def case_prod_beta)
  qed
  have tfirst: "\<exists>tw ex. take 3 tevs =
                  [Forward gr tr (b_img b) (b_uncalibed_depth_img b),
                   Se3Exp tw, Generate gen ex (b_uncalibed_pcd b)]"
    if pos: "0 < arg_inner_iter a"
  proof -
    obtain m where m: "N = Suc m"
      using pos intN by (cases N) simp_all
    show ?thesis
      by (simp add: tevs_def tres_def m Let_def case_prod_beta)
  qed
  have tlast: "\<exists>ex p. drop (length tevs - 3) tevs =
                  [Generate gen ex p,
                   PhotoLoss ph (b_depth_img b) (fst (generate L gen ex p)),
                   ChamferLoss (fst ch) (snd ch) (b_pcd b) (snd (generate L gen ex p))]"
    if pos: "0 < arg_inner_iter a"
  proof -
    obtain m where m: "N = m + Suc 0"
      using pos intN by (cases N) simp_all
    define st where "st = fst (train_inner L \<theta> tr gr (b_img b) gen m
      (b_uncalibed_depth_img b, b_uncalibed_pcd b))"
    define pre where "pre = snd (train_inner L \<theta> tr gr (b_img b) gen m
      (b_uncalibed_depth_img b, b_uncalibed_pcd b))"
    define ex where "ex = se3_exp L (cat L (fst (forward L \<theta> tr (b_img b) (fst st)))
        (snd (forward L \<theta> tr (b_img b) (fst st))))"
    have one: "train_inner L \<theta> tr gr (b_img b) gen (Suc 0) st =
       (generate L gen ex (snd st),
        [Forward gr tr (b_img b) (fst st),
         Se3Exp (cat L (fst (forward L \<theta> tr (b_img b) (fst st)))
                  (snd (forward L \<theta> tr (b_img b) (fst st)))),
         Generate gen ex (snd st)])"
      using train_inner_one [of L \<theta> tr gr "b_img b" gen "fst st" "snd st"]
      by (simp add: ex_def)
    have tr: "tres = (generate L gen ex (snd st),
        pre @ [Forward gr tr (b_img b) (fst st),
         Se3Exp (cat L (fst (forward L \<theta> tr (b_img b) (fst st)))
                  (snd (forward L \<theta> tr (b_img b) (fst st)))),
         Generate gen ex (snd st)])"
      unfolding tres_def m train_inner_add
      by (simp add: one st_def [symmetric] pre_def [symmetric] del: train_inner.simps)
    have "drop (length tevs - 3) tevs =
            [Generate gen ex (snd st),
             PhotoLoss ph (b_depth_img b) (fst (generate L gen ex (snd st))),
             ChamferLoss (fst ch) (snd ch) (b_pcd b) (snd (generate L gen ex (snd st)))]"
      by (simp add: tevs_def tr)
    then show ?thesis by blast
  qed
  show ?thesis
    unfolding gen_def [symmetric] I_def [symmetric]
    using v t vcalls tcalls vcount tcount vfirst tfirst tlast
    by (simp add: N_def [symmetric])
qed

theorem refinement_run_iterations_witness:
  "0 \<le> arg_inner_iter example_args \<and>
   b_InTran example_batch = [[[1, 0, 0], [0, 1, 0], [0, 0, 1]]] \<and>
   (\<exists>r evs. val_batch example_lib example_args example_world example_batch = Inr (r, evs) \<and>
      map call_of evs = [Predict, ExpMap, Reproject, Compose, PoseError] \<and>
      int (length (filter (\<lambda>e. call_of e = Predict) evs)) = 1) \<and>
   (\<exists>r evs. train_forward example_lib example_args 50 (50, ''sum'') 1 2 0 True True example_batch =
        Inr (r, evs) \<and>
      map call_of evs = [Predict, ExpMap, Reproject, Photometric, Chamfer] \<and>
      int (length (filter (\<lambda>e. call_of e = Predict) evs)) = 1)"
proof -
  have h1: "0 \<le> arg_inner_iter example_args"
    by (simp add: example_defs)
  have h2: "b_InTran example_batch = [[1, 0, 0], [0, 1, 0], [0, 0, 1]] # []"
    by (simp add: example_defs)
  note run = refinement_run_iterations [OF h1 h2, where L = example_lib and w = example_world
      and ph = 50 and ch = "(50, ''sum'')" and al = 1 and be = 2 and \<theta> = 0 and tr = True
      and gr = True]
  show ?thesis
    using run h1 h2 by (simp add: example_val_batch example_train_forward)
qed

section \<open>The camera intrinsics of a batch\<close>

lemma weighted_loss_first:
  assumes "b_InTran b = K # Ks"
  shows "weighted_loss L a ph ch al be tr gr (b\<lparr>b_InTran := [K]\<rparr>) =
         weighted_loss L a ph ch al be tr gr b"
  by (rule ext) (simp add: weighted_loss_def assms)

text \<open>
  Claim C7: in \<^verbatim>\<open>val\<close> and in \<^verbatim>\<open>train\<close> the depth-image generator of a batch is built
  from the first element of \<^verbatim>\<open>batch['InTran']\<close>, and that one generator makes every
  reprojection of the batch: each of the \<^verbatim>\<open>args.inner_iter\<close> reprojection calls is made
  by the generator with these intrinsics, and the intrinsics of the other batch elements
  have no effect on what the batch computes.
\<close>

theorem intrinsics_from_first_element:
  assumes K: "b_InTran b = K # Ks" and gr: "grad_enabled w'"
  shows "(\<exists>r evs. val_batch L a w b = Inr (r, evs) \<and>
            (\<forall>g ex p. Generate g ex p \<in> set evs \<longrightarrow>
               g = DepthImgGenerator (shape_hw L (b_img b)) K (arg_pooling a)) \<and>
            length (filter (\<lambda>e. call_of e = Reproject) evs) = nat (arg_inner_iter a)) \<and>
         (\<exists>r w'' evs. train_batch L a ph ch al be w' b = Inr (r, w'', evs) \<and>
            (\<forall>g ex p. Generate g ex p \<in> set evs \<longrightarrow>
               g = DepthImgGenerator (shape_hw L (b_img b)) K (arg_pooling a)) \<and>
            length (filter (\<lambda>e. call_of e = Reproject) evs) = nat (arg_inner_iter a)) \<and>
         val_batch L a w (b\<lparr>b_InTran := [K]\<rparr>) = val_batch L a w b \<and>
         train_batch L a ph ch al be w' (b\<lparr>b_InTran := [K]\<rparr>) = train_batch L a ph ch al be w' b"
proof -
  define gen where "gen = DepthImgGenerator (shape_hw L (b_img b)) K (arg_pooling a)"
  define vevs where "vevs = snd (val_inner L (model_params w) (model_training w) (grad_enabled w)
      (b_img b) gen (nat (arg_inner_iter a))
      (b_uncalibed_depth_img b, b_uncalibed_pcd b, eye4_repeat L (size0 L (b_img b))))"
  define tevs where "tevs = snd (train_inner L (model_params w') (model_training w')
      (grad_enabled w') (b_img b) gen (nat (arg_inner_iter a))
      (b_uncalibed_depth_img b, b_uncalibed_pcd b))"
  have vgen: "g = gen" if "Generate g ex p \<in> set vevs" for g ex p
    using that unfolding vevs_def by (rule val_inner_generators)
  have tgen: "g = gen" if "Generate g ex p \<in> set tevs" for g ex p
    using that unfolding tevs_def by (rule train_inner_generators)
  have vcount: "length (filter (\<lambda>e. call_of e = Reproject) vevs) = nat (arg_inner_iter a)"
    unfolding count_calls by (simp add: vevs_def val_inner_calls count_reproject4)
  have tcount: "length (filter (\<lambda>e. call_of e = Reproject) tevs) = nat (arg_inner_iter a)"
    unfolding count_calls by (simp add: tevs_def train_inner_calls count_reproject3)
  have v: "\<exists>r evs. val_batch L a w b = Inr (r, evs) \<and>
            (\<forall>g ex p. Generate g ex p \<in> set evs \<longrightarrow> g = gen) \<and>
            length (filter (\<lambda>e. call_of e = Reproject) evs) = nat (arg_inner_iter a)"
    using vgen vcount
    by (auto simp: val_batch_Inr [OF K] gen_def [symmetric] vevs_def [symmetric])
  have t: "\<exists>r w'' evs. train_batch L a ph ch al be w' b = Inr (r, w'', evs) \<and>
            (\<forall>g ex p. Generate g ex p \<in> set evs \<longrightarrow> g = gen) \<and>
            length (filter (\<lambda>e. call_of e = Reproject) evs) = nat (arg_inner_iter a)"
    using tgen tcount
    by (auto simp: train_batch_Inr [OF K gr] Let_def gen_def [symmetric] tevs_def [symmetric])
  have K1: "b_InTran (b\<lparr>b_InTran := [K]\<rparr>) = K # []"
    by simp
  have v1: "val_batch L a w (b\<lparr>b_InTran := [K]\<rparr>) = val_batch L a w b"
    by (simp add: val_batch_Inr [OF K] val_batch_Inr [OF K1])
  have t1: "train_batch L a ph ch al be w' (b\<lparr>b_InTran := [K]\<rparr>) =
            train_batch L a ph ch al be w' b"
    by (simp add: train_batch_Inr [OF K gr] train_batch_Inr [OF K1 gr]
          weighted_loss_first [OF K])
  from v t v1 t1 show ?thesis unfolding gen_def by blast
qed

theorem intrinsics_from_first_element_witness:
  "b_InTran example_batch2 =
     [[1, 0, 0], [0, 1, 0], [0, 0, 1]] # [[[2, 0, 0], [0, 2, 0], [0, 0, 1]]] \<and>
   grad_enabled example_world \<and>
   (\<exists>r evs. val_batch example_lib example_args example_world example_batch2 = Inr (r, evs) \<and>
      length (filter (\<lambda>e. call_of e = Reproject) evs) = 1) \<and>
   val_batch example_lib example_args example_world
     (example_batch2\<lparr>b_InTran := [[[1, 0, 0], [0, 1, 0], [0, 0, 1]]]\<rparr>) =
   val_batch example_lib example_args example_world example_batch2"
proof -
  have h1: "b_InTran example_batch2 =
     [[1, 0, 0], [0, 1, 0], [0, 0, 1]] # [[[2, 0, 0], [0, 2, 0], [0, 0, 1]]]"
    by (simp add: example_batch2_def)
  have h2: "grad_enabled example_world"
    by (simp add: example_defs)
  note first = intrinsics_from_first_element [OF h1 h2, where L = example_lib
      and a = example_args and w = example_world and ph = 50 and ch = "(50, ''sum'')"
      and al = 1 and be = 2]
  have n: "nat (arg_inner_iter example_args) = 1"
    by (simp add: example_defs)
  show ?thesis
    using first h1 h2 unfolding n by blast
qed

section \<open>What the validation pass touches\<close>

lemma train_inner_events:
  "e \<in> set (snd (train_inner L \<theta> tr gr rgb gen n st)) \<Longrightarrow>
     val_event gr tr e \<and> call_of e \<noteq> Compose \<and> call_of e \<noteq> PoseError"
proof (induction n arbitrary: st)
  case 0
  then show ?case by simp
next
  case (Suc n)
  obtain d q where st: "st = (d, q)" by (cases st)
  from Suc.prems show ?case
    unfolding st by (auto simp: Let_def case_prod_beta dest: Suc.IH)
qed

lemma val_inner_events:
  "e \<in> set (snd (val_inner L \<theta> tr gr rgb gen n st)) \<Longrightarrow> val_event gr tr e"
proof (induction n arbitrary: st)
  case 0
  then show ?case by simp
next
  case (Suc n)
  obtain d q g where st: "st = (d, q, g)" by (cases st)
  from Suc.prems show ?case
    unfolding st by (auto simp: Let_def case_prod_beta dest: Suc.IH)
qed

lemma val_batch_nonempty:
  assumes "val_batch L a w b = Inr (r, evs)"
  shows "\<exists>K Ks. b_InTran b = K # Ks"
  using assms by (cases "b_InTran b") (simp_all add: val_batch_def Let_def)

lemma val_batch_events:
  assumes "val_batch L a w b = Inr (r, evs)" and "e \<in> set evs"
  shows "val_event (grad_enabled w) (model_training w) e"
proof -
  obtain K Ks where K: "b_InTran b = K # Ks"
    using val_batch_nonempty [OF assms(1)] by blast
  from assms show ?thesis
    by (auto simp: val_batch_Inr [OF K] dest: val_inner_events)
qed

lemma val_batches_events:
  assumes "val_batches L a w bs tot = Inr (r, evs)" and "e \<in> set evs"
  shows "val_event (grad_enabled w) (model_training w) e"
  using assms
proof (induction bs arbitrary: tot r evs)
  case Nil
  then show ?case by simp
next
  case (Cons b bs)
  obtain tR tT where tot: "tot = (tR, tT)" by (cases tot)
  from Cons.prems(1) obtain dR dT evs1 where
    b: "val_batch L a w b = Inr ((dR, dT), evs1)"
    unfolding tot by (auto split: sum.splits)
  from Cons.prems(1) b obtain r2 evs2 where
    bs: "val_batches L a w bs (tR + dR, tT + dT) = Inr (r2, evs2)" and evs: "evs = evs1 @ evs2"
    unfolding tot by (auto split: sum.splits)
  from Cons.prems(2) evs consider "e \<in> set evs1" | "e \<in> set evs2" by auto
  then show ?case
  proof cases
    case 1
    then show ?thesis by (rule val_batch_events [OF b])
  next
    case 2
    then show ?thesis by (rule Cons.IH [OF bs])
  qed
qed

lemma val_Inr:
  assumes "val L a vl w = Inr (r, w', evs)"
  shows "w' = w\<lparr>model_training := False\<rparr>"
    and "\<exists>tot. val_batches L a (w\<lparr>grad_enabled := False, model_training := False\<rparr>) vl (0, 0) =
            Inr (tot, evs)"
    and "vl \<noteq> []"
  using assms
  by (auto simp: val_def Let_def split: sum.splits prod.splits if_splits)

lemma val_events:
  assumes "val L a vl w = Inr (r, w', evs)" and "e \<in> set evs"
  shows "val_event False False e"
proof -
  from val_Inr(2) [OF assms(1)] obtain tot where
    "val_batches L a (w\<lparr>grad_enabled := False, model_training := False\<rparr>) vl (0, 0) = Inr (tot, evs)"
    by blast
  from val_batches_events [OF this assms(2)] show ?thesis by simp
qed

text \<open>
  Claim C5: the pose error of the validation pass is never backpropagated. A call of
  \<^verbatim>\<open>val\<close> leaves the model parameters, the optimizer state, the gradient mode and the
  files as they were; every model call of the pass is made with the gradient mode off
  (and the model in evaluation mode); and the pass makes no \<^verbatim>\<open>backward\<close>, no optimizer
  step, no \<^verbatim>\<open>zero_grad\<close> and no \<^verbatim>\<open>torch.save\<close>.
\<close>

theorem val_reads_only:
  assumes "val L a vl w = Inr (r, w', evs)"
  shows "model_params w' = model_params w \<and>
         optimizer_state w' = optimizer_state w \<and>
         grad_enabled w' = grad_enabled w \<and>
         files w' = files w \<and>
         (\<forall>gr tr rgb d. Forward gr tr rgb d \<in> set evs \<longrightarrow> \<not> gr \<and> \<not> tr) \<and>
         (\<forall>l. Backward l \<notin> set evs) \<and>
         OptimizerStep \<notin> set evs \<and>
         ZeroGrad \<notin> set evs \<and>
         (\<forall>path ck. TorchSave path ck \<notin> set evs)"
proof -
  have w': "w' = w\<lparr>model_training := False\<rparr>"
    by (rule val_Inr(1) [OF assms])
  have ev: "val_event False False e" if "e \<in> set evs" for e
    using assms that by (rule val_events)
  have "\<not> gr \<and> \<not> tr" if "Forward gr tr rgb d \<in> set evs" for gr tr rgb d
    using ev [OF that] by simp
  moreover have "Backward l \<notin> set evs" for l
    using ev [of "Backward l"] by auto
  moreover have "OptimizerStep \<notin> set evs"
    using ev [of OptimizerStep] by auto
  moreover have "ZeroGrad \<notin> set evs"
    using ev [of ZeroGrad] by auto
  moreover have "TorchSave path ck \<notin> set evs" for path ck
    using ev [of "TorchSave path ck"] by auto
  ultimately show ?thesis
    unfolding w' by (simp (no_asm_simp)) blast
qed


section \<open>The calls of the training batches and of the epochs\<close>

lemma train_batch_ok:
  assumes "train_batch L a ph ch al be w b = Inr (r, w', evs)"
  shows "\<exists>K Ks. b_InTran b = K # Ks" and "grad_enabled w"
  using assms
  by (cases "b_InTran b";
      auto simp: train_batch_def train_forward_def Let_def split: if_splits sum.splits prod.splits)+

lemma train_batch_world:
  assumes "train_batch L a ph ch al be w b = Inr (r, w', evs)"
  shows "model_training w' = model_training w \<and> grad_enabled w' = grad_enabled w \<and>
         files w' = files w"
proof -
  obtain K Ks where K: "b_InTran b = K # Ks"
    using train_batch_ok(1) [OF assms] by blast
  have gr: "grad_enabled w"
    by (rule train_batch_ok(2) [OF assms])
  from assms show ?thesis
    by (auto simp: train_batch_Inr [OF K gr] Let_def)
qed

lemma train_batch_events:
  assumes run: "train_batch L a ph ch al be w b = Inr (r, w', evs)"
    and e: "e \<in> set evs"
    and zg: "P ZeroGrad" and os: "P OptimizerStep"
    and inner: "\<And>e. val_event True (model_training w) e \<Longrightarrow> P e"
    and ph: "\<And>d. P (PhotoLoss ph (b_depth_img b) d)"
    and ch: "\<And>p. P (ChamferLoss (fst ch) (snd ch) (b_pcd b) p)"
    and bw: "\<And>\<theta>. P (Backward (weighted_loss L a ph ch al be (model_training w) True b \<theta>))"
  shows "P e"
proof -
  obtain K Ks where K: "b_InTran b = K # Ks"
    using train_batch_ok(1) [OF run] by blast
  have gr: "grad_enabled w"
    by (rule train_batch_ok(2) [OF run])
  define ievs where "ievs = snd (train_inner L (model_params w) (model_training w) True (b_img b)
      (DepthImgGenerator (shape_hw L (b_img b)) K (arg_pooling a))
      (nat (arg_inner_iter a)) (b_uncalibed_depth_img b, b_uncalibed_pcd b))"
  have "e = ZeroGrad \<or> e \<in> set ievs \<or> (\<exists>d. e = PhotoLoss ph (b_depth_img b) d) \<or>
        (\<exists>p. e = ChamferLoss (fst ch) (snd ch) (b_pcd b) p) \<or>
        (\<exists>\<theta>. e = Backward (weighted_loss L a ph ch al be (model_training w) True b \<theta>)) \<or>
        e = OptimizerStep"
    using run e gr by (auto simp: train_batch_Inr [OF K gr] Let_def ievs_def)
  moreover have "P e" if "e \<in> set ievs"
    using that inner unfolding ievs_def by (blast dest: train_inner_events)
  ultimately show ?thesis
    using zg os ph ch bw by blast
qed

lemma train_batches_world:
  assumes "train_batches L a ph ch al be w bs tot = Inr (r, w', evs)"
  shows "model_training w' = model_training w \<and> grad_enabled w' = grad_enabled w \<and>
         files w' = files w"
  using assms
proof (induction bs arbitrary: w tot r evs)
  case Nil
  then show ?case by simp
next
  case (Cons b bs)
  obtain t1 t2 t3 where tot: "tot = (t1, t2, t3)" by (cases tot)
  from Cons.prems obtain l l1 l2 w1 evs1 where
    b: "train_batch L a ph ch al be w b = Inr ((l, l1, l2), w1, evs1)"
    unfolding tot by (auto split: sum.splits)
  from Cons.prems b obtain evs2 where
    bs: "train_batches L a ph ch al be w1 bs (t1 + l, t2 + l1, t3 + l2) = Inr (r, w', evs2)"
    unfolding tot by (auto split: sum.splits)
  from train_batch_world [OF b] Cons.IH [OF bs] show ?case by simp
qed

lemma train_batches_events:
  assumes run: "train_batches L a ph ch al be w bs tot = Inr (r, w', evs)"
    and e: "e \<in> set evs"
    and zg: "P ZeroGrad" and os: "P OptimizerStep"
    and inner: "\<And>e. val_event True (model_training w) e \<Longrightarrow> P e"
    and ph: "\<And>b d. b \<in> set bs \<Longrightarrow> P (PhotoLoss ph (b_depth_img b) d)"
    and ch: "\<And>b p. b \<in> set bs \<Longrightarrow> P (ChamferLoss (fst ch) (snd ch) (b_pcd b) p)"
    and bw: "\<And>b \<theta>. b \<in> set bs \<Longrightarrow>
               P (Backward (weighted_loss L a ph ch al be (model_training w) True b \<theta>))"
  shows "P e"
  using run e inner ph ch bw
proof (induction bs arbitrary: w tot r evs)
  case Nil
  then show ?case by simp
next
  case (Cons b bs)
  obtain t1 t2 t3 where tot: "tot = (t1, t2, t3)" by (cases tot)
  from Cons.prems(1) obtain l l1 l2 w1 evs1 where
    b: "train_batch L a ph ch al be w b = Inr ((l, l1, l2), w1, evs1)"
    unfolding tot by (auto split: sum.splits)
  from Cons.prems(1) b obtain evs2 where
    bs: "train_batches L a ph ch al be w1 bs (t1 + l, t2 + l1, t3 + l2) = Inr (r, w', evs2)"
    and evs: "evs = evs1 @ evs2"
    unfolding tot by (auto split: sum.splits)
  have tr: "model_training w1 = model_training w"
    using train_batch_world [OF b] by simp
  from Cons.prems(2) evs consider "e \<in> set evs1" | "e \<in> set evs2" by auto
  then show ?case
  proof cases
    case 1
    show ?thesis
      by (rule train_batch_events [OF b 1 zg os]) (simp_all add: Cons.prems)
  next
    case 2
    show ?thesis
      by (rule Cons.IH [OF bs 2]) (simp_all add: Cons.prems tr)
  qed
qed

lemma checkpoint_dict_torch_save:
  "checkpoint_dict (torch_save d path w) m ep = checkpoint_dict w m ep"
  by (simp add: checkpoint_dict_def torch_save_def)

lemma train_epoch_Inr:
  assumes "train_epoch L a tbs vbs ph ch al be ga (w, m) ep = Inr ((w', m'), evs)"
  obtains tot w2 evs1 loss_dx dR dT w4 evs2 where
    "train_batches L a ph ch al be (w\<lparr>model_training := True\<rparr>) tbs (0, 0, 0) = Inr (tot, w2, evs1)"
    and "tbs \<noteq> []"
    and "val L a vbs (w2\<lparr>optimizer_state := scheduler_step L ga (optimizer_state w2)\<rparr>) =
           Inr ((loss_dx, dR, dT), w4, evs2)"
    and "m' = (if loss_dx < m then loss_dx else m)"
    and "evs = evs1 @ [SchedulerStep] @ evs2 @
           (if loss_dx < m then [TorchSave (best_path a) (checkpoint_dict w4 loss_dx ep)] else []) @
           [TorchSave (last_path a) (checkpoint_dict w4 m' ep)]"
    and "w' = torch_save (checkpoint_dict w4 m' ep) (last_path a)
           (if loss_dx < m then torch_save (checkpoint_dict w4 loss_dx ep) (best_path a) w4 else w4)"
  using assms
  by (auto simp: train_epoch_def Let_def checkpoint_dict_torch_save
        split: sum.splits prod.splits if_splits)


lemma train_epoch_events:
  assumes run: "train_epoch L a tbs vbs ph ch al be ga st ep = Inr (st', evs)"
    and e: "e \<in> set evs"
    and zg: "P ZeroGrad" and os: "P OptimizerStep" and ss: "P SchedulerStep"
    and inner: "\<And>e gr tr. val_event gr tr e \<Longrightarrow> P e"
    and ph: "\<And>b d. b \<in> set tbs \<Longrightarrow> P (PhotoLoss ph (b_depth_img b) d)"
    and ch: "\<And>b p. b \<in> set tbs \<Longrightarrow> P (ChamferLoss (fst ch) (snd ch) (b_pcd b) p)"
    and bw: "\<And>b \<theta>. b \<in> set tbs \<Longrightarrow> P (Backward (weighted_loss L a ph ch al be True True b \<theta>))"
    and sv: "\<And>path ck. P (TorchSave path ck)"
  shows "P e"
proof -
  obtain w m where st: "st = (w, m)" by (cases st)
  obtain w' m' where st': "st' = (w', m')" by (cases st')
  from run [unfolded st st'] obtain tot w2 evs1 loss_dx dR dT w4 evs2 where
    tb: "train_batches L a ph ch al be (w\<lparr>model_training := True\<rparr>) tbs (0, 0, 0) =
           Inr (tot, w2, evs1)"
    and v: "val L a vbs (w2\<lparr>optimizer_state := scheduler_step L ga (optimizer_state w2)\<rparr>) =
           Inr ((loss_dx, dR, dT), w4, evs2)"
    and evs: "evs = evs1 @ [SchedulerStep] @ evs2 @
           (if loss_dx < m then [TorchSave (best_path a) (checkpoint_dict w4 loss_dx ep)] else []) @
           [TorchSave (last_path a) (checkpoint_dict w4 m' ep)]"
    by (rule train_epoch_Inr)
  from e evs consider "e \<in> set evs1" | "e = SchedulerStep" | "e \<in> set evs2"
    | path ck where "e = TorchSave path ck"
    by (auto split: if_splits)
  then show ?thesis
  proof cases
    case 1
    show ?thesis
      by (rule train_batches_events [OF tb 1 zg os]) (simp_all add: inner ph ch bw)
  next
    case 2
    then show ?thesis using ss by simp
  next
    case 3
    from val_events [OF v 3] show ?thesis by (rule inner)
  next
    case 4
    then show ?thesis using sv by simp
  qed
qed

lemma train_epochs_events:
  assumes run: "train_epochs L a tbs vbs ph ch al be ga st es = Inr (st', evs)"
    and e: "e \<in> set evs"
    and zg: "P ZeroGrad" and os: "P OptimizerStep" and ss: "P SchedulerStep"
    and inner: "\<And>e gr tr. val_event gr tr e \<Longrightarrow> P e"
    and ph: "\<And>b d. b \<in> set tbs \<Longrightarrow> P (PhotoLoss ph (b_depth_img b) d)"
    and ch: "\<And>b p. b \<in> set tbs \<Longrightarrow> P (ChamferLoss (fst ch) (snd ch) (b_pcd b) p)"
    and bw: "\<And>b \<theta>. b \<in> set tbs \<Longrightarrow> P (Backward (weighted_loss L a ph ch al be True True b \<theta>))"
    and sv: "\<And>path ck. P (TorchSave path ck)"
  shows "P e"
  using run e
proof (induction es arbitrary: st evs)
  case Nil
  then show ?case by simp
next
  case (Cons ep es)
  from Cons.prems(1) obtain st1 evs1 where
    one: "train_epoch L a tbs vbs ph ch al be ga st ep = Inr (st1, evs1)"
    by (auto split: sum.splits)
  from Cons.prems(1) one obtain evs2 where
    rest: "train_epochs L a tbs vbs ph ch al be ga st1 es = Inr (st', evs2)"
    and evs: "evs = evs1 @ evs2"
    by (auto split: sum.splits)
  from Cons.prems(2) evs consider "e \<in> set evs1" | "e \<in> set evs2" by auto
  then show ?case
  proof cases
    case 1
    show ?thesis
      by (rule train_epoch_events [OF one 1 zg os ss]) (simp_all add: inner ph ch bw sv)
  next
    case 2
    show ?thesis by (rule Cons.IH [OF rest 2])
  qed
qed

lemma train_Inr:
  assumes "train L a tbs vbs w = Inr (st, evs)"
  obtains w2 start_epoch m0 evs_ep where
    "train_epochs L (if \<not> cuda_is_available L then a\<lparr>arg_device := ''cpu''\<rparr> else a) tbs vbs
       (arg_scale a) (arg_scale a, ''sum'') (arg_alpha a) (arg_beta a) (arg_lr_exp_decay a)
       (w2, m0) (range2 start_epoch (arg_epoch a)) = Inr (st, evs_ep)"
    and "evs = (if arg_resume a \<noteq> [] then [TorchLoad (arg_resume a)] else []) @
           [CudaIsAvailable, ModelTo (if cuda_is_available L then arg_device a else ''cpu'')] @
           evs_ep"
  using assms
  by (auto simp: train_def Let_def split: sum.splits prod.splits if_splits)

lemma weighted_loss_device:
  "weighted_loss L (a\<lparr>arg_device := dev\<rparr>) ph ch al be tr gr b = weighted_loss L a ph ch al be tr gr b"
  by (rule ext) (simp add: weighted_loss_def)


section \<open>The device\<close>

lemma val_event_not_setup:
  "val_event gr tr e \<Longrightarrow> \<not> setup_event e"
  by (cases e) simp_all

text \<open>
  Claim C8: \<^verbatim>\<open>train\<close> asks once whether CUDA is available and moves the model once, to
  the device of the options when CUDA is available and to \<^verbatim>\<open>'cpu'\<close> when it is not. Both
  happen before the epochs: only the load of the checkpoint to resume from comes earlier,
  and no call after them, in the refinement loops, the losses or anywhere else in the
  epochs, asks again or moves the model.
\<close>

theorem device_fallback_once:
  assumes "train L a tbs vbs w = Inr (st, evs)"
  shows "\<exists>post. evs = (if arg_resume a \<noteq> [] then [TorchLoad (arg_resume a)] else []) @
                     [CudaIsAvailable,
                      ModelTo (if cuda_is_available L then arg_device a else ''cpu'')] @ post \<and>
                (\<forall>e\<in>set post. e \<noteq> CudaIsAvailable \<and> (\<forall>dev. e \<noteq> ModelTo dev))"
proof -
  from assms obtain w2 start_epoch m0 evs_ep where
    ep: "train_epochs L (if \<not> cuda_is_available L then a\<lparr>arg_device := ''cpu''\<rparr> else a) tbs vbs
       (arg_scale a) (arg_scale a, ''sum'') (arg_alpha a) (arg_beta a) (arg_lr_exp_decay a)
       (w2, m0) (range2 start_epoch (arg_epoch a)) = Inr (st, evs_ep)"
    and evs: "evs = (if arg_resume a \<noteq> [] then [TorchLoad (arg_resume a)] else []) @
           [CudaIsAvailable, ModelTo (if cuda_is_available L then arg_device a else ''cpu'')] @
           evs_ep"
    by (rule train_Inr)
  have "\<not> setup_event e" if "e \<in> set evs_ep" for e
    by (rule train_epochs_events [OF ep that]) (simp_all add: val_event_not_setup)
  then have "\<forall>e\<in>set evs_ep. e \<noteq> CudaIsAvailable \<and> (\<forall>dev. e \<noteq> ModelTo dev)"
    by force
  with evs show ?thesis by blast
qed

section \<open>The loss that is backpropagated\<close>

lemma train_batch_backward:
  assumes run: "train_batch L a ph ch al be w b = Inr ((loss, loss1, loss2), w', evs)"
  shows "loss = weighted_loss L a ph ch al be (model_training w) True b (model_params w)"
    and "Backward l \<in> set evs \<longleftrightarrow> l = loss"
    and "(model_params w', optimizer_state w') =
           optimizer_step L (zero_grad L (optimizer_state w)) (model_params w)
             (weighted_loss L a ph ch al be (model_training w) True b)"
proof -
  obtain K Ks where K: "b_InTran b = K # Ks"
    using train_batch_ok(1) [OF run] by blast
  have gr: "grad_enabled w"
    by (rule train_batch_ok(2) [OF run])
  define ievs where "ievs = snd (train_inner L (model_params w) (model_training w) True (b_img b)
      (DepthImgGenerator (shape_hw L (b_img b)) K (arg_pooling a))
      (nat (arg_inner_iter a)) (b_uncalibed_depth_img b, b_uncalibed_pcd b))"
  have no: "Backward l \<notin> set ievs"
    unfolding ievs_def using train_inner_events [of "Backward l"] by auto
  from run gr show "loss = weighted_loss L a ph ch al be (model_training w) True b (model_params w)"
    by (auto simp: train_batch_Inr [OF K gr] Let_def)
  from run gr no show "Backward l \<in> set evs \<longleftrightarrow> l = loss"
    by (auto simp: train_batch_Inr [OF K gr] Let_def ievs_def)
  from run gr show "(model_params w', optimizer_state w') =
           optimizer_step L (zero_grad L (optimizer_state w)) (model_params w)
             (weighted_loss L a ph ch al be (model_training w) True b)"
    by (auto simp: train_batch_Inr [OF K gr] Let_def)
qed

text \<open>
  Claim C4: the loss that is backpropagated is the weighted loss. In a run of \<^verbatim>\<open>train\<close>
  every \<^verbatim>\<open>backward\<close> is called on the weighted loss of a batch of the training loader,
  with the weights \<^verbatim>\<open>args.alpha\<close> and \<^verbatim>\<open>args.beta\<close>, and both loss objects have the scale
  \<^verbatim>\<open>args.scale\<close>, the chamfer loss with the reduction \<^verbatim>\<open>'sum'\<close>. For a single batch, the
  loss returned is the weighted loss at the current parameters of the model, it is the
  only thing \<^verbatim>\<open>backward\<close> is called on, and the optimizer steps on it.
\<close>

theorem backpropagated_loss:
  fixes L :: "('t, 'p, 'o, 's::{plus,times,zero,inverse,ord}) lib"
  shows "(train L a tbs vbs w = Inr (st, evs) \<longrightarrow>
           (\<forall>l. Backward l \<in> set evs \<longrightarrow>
              (\<exists>b\<in>set tbs. \<exists>\<theta>. l = weighted_loss L a (arg_scale a) (arg_scale a, ''sum'')
                                     (arg_alpha a) (arg_beta a) True True b \<theta>)) \<and>
           (\<forall>s x y. PhotoLoss s x y \<in> set evs \<longrightarrow> s = arg_scale a) \<and>
           (\<forall>s r x y. ChamferLoss s r x y \<in> set evs \<longrightarrow> s = arg_scale a \<and> r = ''sum'')) \<and>
         (train_batch L a ph ch al be w0 b0 = Inr ((loss, loss1, loss2), w1, evs1) \<longrightarrow>
           loss = weighted_loss L a ph ch al be (model_training w0) True b0 (model_params w0) \<and>
           (\<forall>l. Backward l \<in> set evs1 \<longleftrightarrow> l = loss) \<and>
           (model_params w1, optimizer_state w1) =
             optimizer_step L (zero_grad L (optimizer_state w0)) (model_params w0)
               (weighted_loss L a ph ch al be (model_training w0) True b0))"
proof (intro conjI impI)
  assume run: "train_batch L a ph ch al be w0 b0 = Inr ((loss, loss1, loss2), w1, evs1)"
  show "loss = weighted_loss L a ph ch al be (model_training w0) True b0 (model_params w0)"
    by (rule train_batch_backward(1) [OF run])
  show "\<forall>l. Backward l \<in> set evs1 \<longleftrightarrow> l = loss"
    using train_batch_backward(2) [OF run] by blast
  show "(model_params w1, optimizer_state w1) =
             optimizer_step L (zero_grad L (optimizer_state w0)) (model_params w0)
               (weighted_loss L a ph ch al be (model_training w0) True b0)"
    by (rule train_batch_backward(3) [OF run])
next
  assume run: "train L a tbs vbs w = Inr (st, evs)"
  define a' where "a' = (if \<not> cuda_is_available L then a\<lparr>arg_device := ''cpu''\<rparr> else a)"
  define P :: "('t, 'p, 'o, 's) event \<Rightarrow> bool" where
    "P = (\<lambda>e. (\<forall>l. e = Backward l \<longrightarrow>
                  (\<exists>b\<in>set tbs. \<exists>\<theta>. l = weighted_loss L a (arg_scale a) (arg_scale a, ''sum'')
                                   (arg_alpha a) (arg_beta a) True True b \<theta>)) \<and>
              (\<forall>s x y. e = PhotoLoss s x y \<longrightarrow> s = arg_scale a) \<and>
              (\<forall>s r x y. e = ChamferLoss s r x y \<longrightarrow> s = arg_scale a \<and> r = ''sum''))"
  from run obtain w2 start_epoch m0 evs_ep where
    ep: "train_epochs L a' tbs vbs
       (arg_scale a) (arg_scale a, ''sum'') (arg_alpha a) (arg_beta a) (arg_lr_exp_decay a)
       (w2, m0) (range2 start_epoch (arg_epoch a)) = Inr (st, evs_ep)"
    and evs: "evs = (if arg_resume a \<noteq> [] then [TorchLoad (arg_resume a)] else []) @
           [CudaIsAvailable, ModelTo (if cuda_is_available L then arg_device a else ''cpu'')] @
           evs_ep"
    unfolding a'_def by (rule train_Inr)
  have wl: "weighted_loss L a' ph ch al be tr gr b = weighted_loss L a ph ch al be tr gr b"
    for ph ch al be tr gr b
    by (simp add: a'_def weighted_loss_device)
  have inner: "P e" if "val_event gr tr e" for e gr tr
    using that by (cases e) (simp_all add: P_def)
  have ep_ok: "P e" if "e \<in> set evs_ep" for e
  proof (rule train_epochs_events [OF ep that])
    show "P ZeroGrad" "P OptimizerStep" "P SchedulerStep"
      by (simp_all add: P_def)
    show "P (TorchSave path ck)" for path ck
      by (simp add: P_def)
    show "P e" if "val_event gr tr e" for e gr tr
      using that by (rule inner)
    show "P (PhotoLoss (arg_scale a) (b_depth_img b) d)" for b d
      by (simp add: P_def)
    show "P (ChamferLoss (fst (arg_scale a, ''sum'')) (snd (arg_scale a, ''sum'')) (b_pcd b) p)"
      for b p
      by (simp add: P_def)
    show "P (Backward (weighted_loss L a' (arg_scale a) (arg_scale a, ''sum'') (arg_alpha a)
                (arg_beta a) True True b \<theta>))" if "b \<in> set tbs" for b \<theta>
      using that unfolding P_def wl by blast
  qed
  have all: "P e" if "e \<in> set evs" for e
    using that ep_ok unfolding evs by (auto simp: P_def split: if_splits)
  show "\<forall>l. Backward l \<in> set evs \<longrightarrow>
              (\<exists>b\<in>set tbs. \<exists>\<theta>. l = weighted_loss L a (arg_scale a) (arg_scale a, ''sum'')
                                     (arg_alpha a) (arg_beta a) True True b \<theta>)"
    using all unfolding P_def by blast
  show "\<forall>s x y. PhotoLoss s x y \<in> set evs \<longrightarrow> s = arg_scale a"
    using all unfolding P_def by blast
  show "\<forall>s r x y. ChamferLoss s r x y \<in> set evs \<longrightarrow> s = arg_scale a \<and> r = ''sum''"
    using all unfolding P_def by blast
qed

section \<open>The example run\<close>

lemma example_args_fields:
  "arg_resume example_args = []" "arg_scale example_args = 50" "arg_alpha example_args = 1"
  "arg_beta example_args = 2" "arg_lr_exp_decay example_args = 1" "arg_epoch example_args = 2"
  "arg_inner_iter example_args = 1" "arg_pooling example_args = 5"
  "arg_device example_args = ''cuda:0''" "arg_checkpoint_dir example_args = ''checkpoint/''"
  "arg_checkpoint_name example_args = ''model''"
  by (simp_all add: example_args_def)

lemma example_lib_fields:
  "cuda_is_available example_lib = False" "model_init example_lib = 0"
  "sgd_init example_lib = (\<lambda>\<theta> lr m wd. 0)" "float_inf example_lib = 1000000"
  "float_of_len example_lib = real" "zero_grad example_lib = (\<lambda>opt. opt)"
  "optimizer_step example_lib = (\<lambda>opt \<theta> loss. (Suc \<theta>, Suc opt))"
  "scheduler_step example_lib = (\<lambda>g opt. opt)"
  by (simp_all add: example_lib_def)

lemma example_val_batch_any:
  "val_batch example_lib (example_args\<lparr>arg_device := dev\<rparr>) w example_batch =
     Inr ((0, 1),
       [Forward (grad_enabled w) (model_training w) [[7, 7], [7, 7]] [[5, 6]],
        Se3Exp [[0, 0, 0, 1, 0, 0]],
        Generate \<lparr>gen_shape = (2, 2), gen_InTran = [[1, 0, 0], [0, 1, 0], [0, 0, 1]],
                    gen_pooling = 5\<rparr>
          [[1, 0, 0, 1], [0, 1, 0, 0], [0, 0, 1, 0], [0, 0, 0, 1]]
          [[- 1, 0], [0, 0], [5, 6], [1, 1]],
        Bmm [[1, 0, 0, 0], [0, 1, 0, 0], [0, 0, 1, 0], [0, 0, 0, 1]]
          [[1, 0, 0, 1], [0, 1, 0, 0], [0, 0, 1, 0], [0, 0, 0, 1]],
        GeodesicDistance [[1, 0, 0, 0], [0, 1, 0, 0], [0, 0, 1, 0], [0, 0, 0, 1]]
          [[1, 0, 0, 1], [0, 1, 0, 0], [0, 0, 1, 0], [0, 0, 0, 1]]])"
  by (simp add: val_batch_def example_lib_def example_args_def example_batch_def
        DepthImgGenerator_def Let_def translation_exp_def eye4_def mat_mul_def)

lemma example_train_forward_any:
  "train_forward example_lib (example_args\<lparr>arg_device := dev\<rparr>) 50 (50, ''sum'') 1 2 \<theta> tr gr
     example_batch =
     Inr ((0, 0, 0),
       [Forward gr tr [[7, 7], [7, 7]] [[5, 6]],
        Se3Exp [[0, 0, 0, 1, 0, 0]],
        Generate \<lparr>gen_shape = (2, 2), gen_InTran = [[1, 0, 0], [0, 1, 0], [0, 0, 1]],
                    gen_pooling = 5\<rparr>
          [[1, 0, 0, 1], [0, 1, 0, 0], [0, 0, 1, 0], [0, 0, 0, 1]]
          [[- 1, 0], [0, 0], [5, 6], [1, 1]],
        PhotoLoss 50 [[5, 6]] [[5, 6]],
        ChamferLoss 50 ''sum'' [[0, 1], [0, 0], [5, 6], [1, 1]]
          [[0, 1], [0, 0], [5, 6], [1, 1]]])"
  by (simp add: train_forward_def example_lib_def example_args_def example_batch_def
        DepthImgGenerator_def Let_def translation_exp_def eye4_def mat_mul_def)

lemma example_val:
  "val example_lib (example_args\<lparr>arg_device := dev\<rparr>) [example_batch] w =
     Inr ((1, 0, 1), w\<lparr>model_training := False\<rparr>,
       [Forward False False [[7, 7], [7, 7]] [[5, 6]],
        Se3Exp [[0, 0, 0, 1, 0, 0]],
        Generate \<lparr>gen_shape = (2, 2), gen_InTran = [[1, 0, 0], [0, 1, 0], [0, 0, 1]],
                    gen_pooling = 5\<rparr>
          [[1, 0, 0, 1], [0, 1, 0, 0], [0, 0, 1, 0], [0, 0, 0, 1]]
          [[- 1, 0], [0, 0], [5, 6], [1, 1]],
        Bmm [[1, 0, 0, 0], [0, 1, 0, 0], [0, 0, 1, 0], [0, 0, 0, 1]]
          [[1, 0, 0, 1], [0, 1, 0, 0], [0, 0, 1, 0], [0, 0, 0, 1]],
        GeodesicDistance [[1, 0, 0, 0], [0, 1, 0, 0], [0, 0, 1, 0], [0, 0, 0, 1]]
          [[1, 0, 0, 1], [0, 1, 0, 0], [0, 0, 1, 0], [0, 0, 0, 1]]])"
  by (simp add: val_def example_val_batch_any Let_def example_lib_fields)

lemma example_train_batch:
  "grad_enabled w \<Longrightarrow>
   train_batch example_lib (example_args\<lparr>arg_device := dev\<rparr>) 50 (50, ''sum'') 1 2 w example_batch =
     Inr ((0, 0, 0),
       w\<lparr>model_params := Suc (model_params w), optimizer_state := Suc (optimizer_state w)\<rparr>,
       [ZeroGrad,
        Forward True (model_training w) [[7, 7], [7, 7]] [[5, 6]],
        Se3Exp [[0, 0, 0, 1, 0, 0]],
        Generate \<lparr>gen_shape = (2, 2), gen_InTran = [[1, 0, 0], [0, 1, 0], [0, 0, 1]],
                    gen_pooling = 5\<rparr>
          [[1, 0, 0, 1], [0, 1, 0, 0], [0, 0, 1, 0], [0, 0, 0, 1]]
          [[- 1, 0], [0, 0], [5, 6], [1, 1]],
        PhotoLoss 50 [[5, 6]] [[5, 6]],
        ChamferLoss 50 ''sum'' [[0, 1], [0, 0], [5, 6], [1, 1]]
          [[0, 1], [0, 0], [5, 6], [1, 1]],
        Backward 0, OptimizerStep])"
  by (simp add: train_batch_def example_train_forward_any Let_def example_lib_fields)

lemma example_train_epoch:
  "grad_enabled w \<Longrightarrow>
   \<exists>w' evs. train_epoch example_lib (example_args\<lparr>arg_device := dev\<rparr>) [example_batch]
       [example_batch] 50 (50, ''sum'') 1 2 1 (w, m) ep = Inr ((w', if 1 < m then 1 else m), evs) \<and>
     grad_enabled w' \<and> Backward 0 \<in> set evs"
  by (simp add: train_epoch_def example_train_batch example_val Let_def example_lib_fields
        torch_save_def)

lemma example_train_epochs:
  "grad_enabled w \<Longrightarrow>
   \<exists>st evs. train_epochs example_lib (example_args\<lparr>arg_device := dev\<rparr>) [example_batch]
       [example_batch] 50 (50, ''sum'') 1 2 1 (w, m) es = Inr (st, evs) \<and>
     (es \<noteq> [] \<longrightarrow> Backward 0 \<in> set evs)"
proof (induction es arbitrary: w m)
  case Nil
  show ?case by simp
next
  case (Cons ep es)
  from example_train_epoch [OF Cons.prems] obtain w' evs where
    one: "train_epoch example_lib (example_args\<lparr>arg_device := dev\<rparr>) [example_batch]
       [example_batch] 50 (50, ''sum'') 1 2 1 (w, m) ep = Inr ((w', if 1 < m then 1 else m), evs)"
    and gr: "grad_enabled w'" and bw: "Backward 0 \<in> set evs"
    by blast
  from Cons.IH [OF gr] obtain st evs' where
    "train_epochs example_lib (example_args\<lparr>arg_device := dev\<rparr>) [example_batch]
       [example_batch] 50 (50, ''sum'') 1 2 1 (w', if 1 < m then 1 else m) es = Inr (st, evs')"
    by blast
  with one bw show ?case by simp
qed

lemma example_train:
  "\<exists>st evs. train example_lib example_args [example_batch] [example_batch] example_world =
     Inr (st, evs) \<and> Backward 0 \<in> set evs"
proof -
  define w0 where "w0 = example_world\<lparr>model_params := 0, model_training := True,
     optimizer_state := 0\<rparr>"
  have gr: "grad_enabled w0"
    by (simp add: w0_def example_world_def)
  have ne: "range2 0 2 \<noteq> []"
    by (simp add: range2_def)
  from example_train_epochs [OF gr, of "''cpu''" 1000000 "range2 0 2"] ne obtain st evs where
    ep: "train_epochs example_lib (example_args\<lparr>arg_device := ''cpu''\<rparr>) [example_batch]
       [example_batch] 50 (50, ''sum'') 1 2 1 (w0, 1000000) (range2 0 2) = Inr (st, evs)"
    and bw: "Backward 0 \<in> set evs"
    by blast
  show ?thesis
    using bw
    by (simp add: train_def Let_def example_args_fields example_lib_fields ep [unfolded w0_def])
qed

section \<open>The checkpoints\<close>

lemma saved_append: "saved (xs @ ys) = saved xs @ saved ys"
proof (induction xs)
  case Nil
  show ?case by simp
next
  case (Cons x xs)
  then show ?case by (cases x) simp_all
qed

lemma saved_none:
  "(\<And>e. e \<in> set evs \<Longrightarrow> \<forall>path ck. e \<noteq> TorchSave path ck) \<Longrightarrow> saved evs = []"
proof (induction evs)
  case Nil
  show ?case by simp
next
  case (Cons x xs)
  then show ?case by (cases x) auto
qed

lemma val_event_not_save:
  "val_event gr tr e \<Longrightarrow> \<forall>path ck. e \<noteq> TorchSave path ck"
  by (cases e) simp_all

lemma best_path_not_last_path: "best_path a \<noteq> last_path a"
  by (cases "arg_checkpoint_name a") (auto simp: best_path_def last_path_def path_join_def)

lemma train_epoch_min_loss:
  fixes m :: "'s::{plus,times,zero,inverse,order}"
  assumes "train_epoch L a tbs vbs ph ch al be ga (w, m) ep = Inr ((w', m'), evs)"
  shows "m' \<le> m"
proof -
  from assms obtain loss_dx where "m' = (if loss_dx < m then loss_dx else m)"
    by (rule train_epoch_Inr)
  then show ?thesis by (simp add: less_imp_le)
qed

lemma train_epochs_min_loss:
  fixes m :: "'s::{plus,times,zero,inverse,order}"
  assumes "train_epochs L a tbs vbs ph ch al be ga (w, m) es = Inr ((w', m'), evs)"
  shows "m' \<le> m"
  using assms
proof (induction es arbitrary: w m evs)
  case Nil
  then show ?case by simp
next
  case (Cons ep es)
  from Cons.prems obtain w1 m1 evs1 where
    one: "train_epoch L a tbs vbs ph ch al be ga (w, m) ep = Inr ((w1, m1), evs1)"
    by (auto split: sum.splits)
  from Cons.prems one obtain evs2 where
    rest: "train_epochs L a tbs vbs ph ch al be ga (w1, m1) es = Inr ((w', m'), evs2)"
    by (auto split: sum.splits)
  from train_epoch_min_loss [OF one] Cons.IH [OF rest] show ?case
    by (rule order_trans [rotated])
qed

text \<open>
  Claim C9: \<^verbatim>\<open>min_loss\<close> never increases, over one epoch and over any number of
  epochs. In an epoch whose validation pass returns \<^verbatim>\<open>loss_dx\<close>, the checkpoints written
  are the best one and then the last one when \<^verbatim>\<open>loss_dx\<close> is less than the previous
  \<^verbatim>\<open>min_loss\<close>, and the last one alone otherwise; the two paths differ.
\<close>

theorem best_and_last_checkpoints:
  fixes m :: "'s::{plus,times,zero,inverse,order}"
  shows "(train_epoch L a tbs vbs ph ch al be ga (w, m) ep = Inr ((w', m'), evs) \<longrightarrow>
           (\<exists>w3 loss_dx dR dT w4 evs_val pre post.
              val L a vbs w3 = Inr ((loss_dx, dR, dT), w4, evs_val) \<and>
              evs = pre @ evs_val @ post \<and>
              m' = (if loss_dx < m then loss_dx else m) \<and>
              m' \<le> m \<and>
              map fst (saved evs) =
                (if loss_dx < m then [best_path a, last_path a] else [last_path a]))) \<and>
         (train_epochs L a tbs vbs ph ch al be ga (w, m) es = Inr ((w'', m''), evs') \<longrightarrow> m'' \<le> m) \<and>
         best_path a \<noteq> last_path a"
proof (intro conjI impI)
  show "best_path a \<noteq> last_path a"
    by (rule best_path_not_last_path)
next
  assume "train_epochs L a tbs vbs ph ch al be ga (w, m) es = Inr ((w'', m''), evs')"
  then show "m'' \<le> m"
    by (rule train_epochs_min_loss)
next
  assume run: "train_epoch L a tbs vbs ph ch al be ga (w, m) ep = Inr ((w', m'), evs)"
  from run obtain tot w2 evs1 loss_dx dR dT w4 evs2 where
    tb: "train_batches L a ph ch al be (w\<lparr>model_training := True\<rparr>) tbs (0, 0, 0) =
           Inr (tot, w2, evs1)"
    and v: "val L a vbs (w2\<lparr>optimizer_state := scheduler_step L ga (optimizer_state w2)\<rparr>) =
           Inr ((loss_dx, dR, dT), w4, evs2)"
    and m': "m' = (if loss_dx < m then loss_dx else m)"
    and evs: "evs = evs1 @ [SchedulerStep] @ evs2 @
           (if loss_dx < m then [TorchSave (best_path a) (checkpoint_dict w4 loss_dx ep)] else []) @
           [TorchSave (last_path a) (checkpoint_dict w4 m' ep)]"
    by (rule train_epoch_Inr)
  have s1: "saved evs1 = []"
  proof (rule saved_none)
    fix e assume e: "e \<in> set evs1"
    show "\<forall>path ck. e \<noteq> TorchSave path ck"
      by (rule train_batches_events [OF tb e]) (simp_all add: val_event_not_save)
  qed
  have s2: "saved evs2 = []"
  proof (rule saved_none)
    fix e assume e: "e \<in> set evs2"
    from val_events [OF v e] show "\<forall>path ck. e \<noteq> TorchSave path ck"
      by (rule val_event_not_save)
  qed
  have sv: "map fst (saved evs) =
      (if loss_dx < m then [best_path a, last_path a] else [last_path a])"
    by (simp add: evs saved_append s1 s2)
  have le: "m' \<le> m"
    using run by (rule train_epoch_min_loss)
  have split: "evs = (evs1 @ [SchedulerStep]) @ evs2 @
           ((if loss_dx < m then [TorchSave (best_path a) (checkpoint_dict w4 loss_dx ep)] else []) @
            [TorchSave (last_path a) (checkpoint_dict w4 m' ep)])"
    by (simp add: evs)
  from v split m' le sv show "\<exists>w3 loss_dx dR dT w4 evs_val pre post.
              val L a vbs w3 = Inr ((loss_dx, dR, dT), w4, evs_val) \<and>
              evs = pre @ evs_val @ post \<and>
              m' = (if loss_dx < m then loss_dx else m) \<and>
              m' \<le> m \<and>
              map fst (saved evs) =
                (if loss_dx < m then [best_path a, last_path a] else [last_path a])"
    by blast
qed




section \<open>The data loaders\<close>

lemma chunks_Nil: "chunks n [] = []"
  by (simp add: chunks.simps)

lemma chunks_Cons:
  "0 < n \<Longrightarrow> xs \<noteq> [] \<Longrightarrow> chunks n xs = take n xs # chunks n (drop n xs)"
  by (subst chunks.simps) simp

lemma chunks_short:
  "0 < n \<Longrightarrow> xs \<noteq> [] \<Longrightarrow> length xs \<le> n \<Longrightarrow> chunks n xs = [xs]"
  by (simp add: chunks_Cons chunks_Nil)

lemma concat_chunks: "0 < n \<Longrightarrow> concat (chunks n xs) = xs"
proof (induction n xs rule: chunks.induct)
  case (1 n xs)
  show ?case
  proof (cases "xs = []")
    case True
    then show ?thesis by (simp add: chunks_Nil)
  next
    case False
    with 1 show ?thesis by (simp add: chunks_Cons)
  qed
qed

text \<open>All batches but the last are full; the last holds the remainder, or is full when
  there is none.\<close>

lemma chunks_shape:
  assumes "0 < n" and "xs \<noteq> []"
  shows "chunks n xs \<noteq> [] \<and>
         (\<forall>c\<in>set (butlast (chunks n xs)). length c = n) \<and>
         length (last (chunks n xs)) = (if length xs mod n = 0 then n else length xs mod n)"
  using assms
proof (induction n xs rule: chunks.induct)
  case (1 n xs)
  note n0 = \<open>0 < n\<close> and ne = \<open>xs \<noteq> []\<close>
  show ?case
  proof (cases "length xs \<le> n")
    case True
    have c: "chunks n xs = [xs]"
      using n0 ne True by (rule chunks_short)
    have "length xs = (if length xs mod n = 0 then n else length xs mod n)"
    proof (cases "length xs = n")
      case True
      then show ?thesis by simp
    next
      case False
      with \<open>length xs \<le> n\<close> have "length xs < n" by simp
      moreover have "length xs \<noteq> 0" using ne by simp
      ultimately show ?thesis by simp
    qed
    then show ?thesis
      unfolding c by simp
  next
    case False
    then have d: "drop n xs \<noteq> []" by simp
    have c: "chunks n xs = take n xs # chunks n (drop n xs)"
      using n0 ne by (rule chunks_Cons)
    have "\<not> (n = 0 \<or> xs = [])"
      using n0 ne by simp
    from "1.IH" [OF this n0 d] have IH1: "chunks n (drop n xs) \<noteq> []"
      and IH2: "\<forall>c\<in>set (butlast (chunks n (drop n xs))). length c = n"
      and IH3: "length (last (chunks n (drop n xs))) =
           (if length (drop n xs) mod n = 0 then n else length (drop n xs) mod n)"
      by blast+
    from False have m: "length (drop n xs) mod n = length xs mod n"
      by (simp add: le_mod_geq)
    have t: "length (take n xs) = n"
      using False by simp
    have b: "butlast (chunks n xs) = take n xs # butlast (chunks n (drop n xs))"
      unfolding c using IH1 by simp
    have l: "last (chunks n xs) = last (chunks n (drop n xs))"
      unfolding c using IH1 by simp
    have "chunks n xs \<noteq> []"
      unfolding c by simp
    moreover have "\<forall>c\<in>set (butlast (chunks n xs)). length c = n"
      unfolding b using IH2 t by simp
    moreover have "length (last (chunks n xs)) =
        (if length xs mod n = 0 then n else length xs mod n)"
      unfolding l IH3 m ..
    ultimately show ?thesis by blast
  qed
qed

lemma filter_full_chunks:
  assumes "0 < n"
  shows "filter (\<lambda>c. length c = n) (chunks n xs) =
           (if length xs mod n = 0 then chunks n xs else butlast (chunks n xs))"
proof (cases "xs = []")
  case True
  then show ?thesis by (simp add: chunks_Nil)
next
  case False
  from chunks_shape [OF assms False] have ne: "chunks n xs \<noteq> []"
    and full: "\<forall>c\<in>set (butlast (chunks n xs)). length c = n"
    and lst: "length (last (chunks n xs)) = (if length xs mod n = 0 then n else length xs mod n)"
    by blast+
  have split: "chunks n xs = butlast (chunks n xs) @ [last (chunks n xs)]"
    using ne by simp
  have fb: "filter (\<lambda>c. length c = n) (butlast (chunks n xs)) = butlast (chunks n xs)"
    using full by (simp add: filter_id_conv)
  have "filter (\<lambda>c. length c = n) (chunks n xs) =
          filter (\<lambda>c. length c = n) (butlast (chunks n xs)) @
          filter (\<lambda>c. length c = n) [last (chunks n xs)]"
    by (subst split) (simp only: filter_append)
  also have "\<dots> = (if length xs mod n = 0 then chunks n xs else butlast (chunks n xs))"
  proof (cases "length xs mod n = 0")
    case True
    with lst fb split show ?thesis by simp
  next
    case False
    have "length xs mod n < n" using assms by simp
    with False lst fb show ?thesis by simp
  qed
  finally show ?thesis .
qed

lemma chunks_no_single:
  assumes "1 < n" and "length xs mod n \<noteq> 1" and "c \<in> set (chunks n xs)"
  shows "length c \<noteq> 1"
proof (cases "xs = []")
  case True
  with assms show ?thesis by (simp add: chunks_Nil)
next
  case False
  from assms have n: "0 < n" by simp
  from chunks_shape [OF n False] have ne: "chunks n xs \<noteq> []"
    and full: "\<forall>c\<in>set (butlast (chunks n xs)). length c = n"
    and lst: "length (last (chunks n xs)) = (if length xs mod n = 0 then n else length xs mod n)"
    by blast+
  have "set (chunks n xs) = set (butlast (chunks n xs) @ [last (chunks n xs)])"
    using ne by simp
  with assms(3) have "c \<in> set (butlast (chunks n xs)) \<or> c = last (chunks n xs)"
    by auto
  then show ?thesis
    using full lst assms(1,2) by (auto split: if_splits)
qed


lemma DataLoader_flag:
  assumes bs: "0 < bs"
  shows "DataLoader ds bs (int (length ds) mod bs = 1) =
           Inr (if int (length ds) mod bs = 1 then butlast (chunks (nat bs) ds)
                else chunks (nat bs) ds)"
proof -
  have n: "0 < nat bs" using bs by simp
  have conv: "int (length ds mod nat bs) = int (length ds) mod bs"
    using bs by (simp add: zmod_int)
  show ?thesis
  proof (cases "int (length ds) mod bs = 1")
    case True
    with conv have "length ds mod nat bs = 1" by simp
    then have "length ds mod nat bs \<noteq> 0" by simp
    with filter_full_chunks [OF n, of ds] True bs show ?thesis
      by (simp add: DataLoader_def)
  next
    case False
    with bs show ?thesis by (simp add: DataLoader_def)
  qed
qed

lemma DataLoader_no_single:
  assumes bs: "1 < bs" and c: "c \<in> set (if int (length ds) mod bs = 1
      then butlast (chunks (nat bs) ds) else chunks (nat bs) ds)"
  shows "length c \<noteq> 1"
proof -
  have n: "0 < nat bs" and n1: "1 < nat bs" using bs by simp_all
  have conv: "int (length ds mod nat bs) = int (length ds) mod bs"
    using bs by (simp add: zmod_int)
  show ?thesis
  proof (cases "int (length ds) mod bs = 1")
    case True
    with c have cb: "c \<in> set (butlast (chunks (nat bs) ds))" by simp
    then have "chunks (nat bs) ds \<noteq> []" by auto
    then have "ds \<noteq> []" by (auto simp: chunks_Nil)
    from chunks_shape [OF n this] cb have "length c = nat bs" by blast
    with n1 show ?thesis by simp
  next
    case False
    with conv have "length ds mod nat bs \<noteq> 1"
      by (metis of_nat_1)
    moreover from False c have "c \<in> set (chunks (nat bs) ds)" by simp
    ultimately show ?thesis using n1 by (rule chunks_no_single [rotated -1, rotated -1])
  qed
qed


lemma main_loaders_Inr:
  assumes "main_loaders a tds vds = Inr (tlo, vlo)"
  shows "0 < arg_batch_size a"
    and "DataLoader tds (arg_batch_size a) (int (length tds) mod arg_batch_size a = 1) = Inr tlo"
    and "DataLoader vds (arg_batch_size a) (int (length vds) mod arg_batch_size a = 1) = Inr vlo"
  using assms
  by (auto simp: main_loaders_def drop_last_flag_def DataLoader_def split: if_splits)

text \<open>
  Claim C10, as amended: for a batch size other than 1, each loader is the dataset cut
  into consecutive batches, without the last batch exactly when the length of the
  dataset leaves the remainder 1, and no batch of a single sample is delivered.
\<close>

theorem no_single_sample_batch:
  assumes bs: "arg_batch_size a \<noteq> 1"
    and run: "main_loaders a train_dataset val_dataset = Inr (train_dataloader, val_dataloder)"
  shows "train_dataloader =
           (if int (length train_dataset) mod arg_batch_size a = 1
            then butlast (chunks (nat (arg_batch_size a)) train_dataset)
            else chunks (nat (arg_batch_size a)) train_dataset) \<and>
         val_dataloder =
           (if int (length val_dataset) mod arg_batch_size a = 1
            then butlast (chunks (nat (arg_batch_size a)) val_dataset)
            else chunks (nat (arg_batch_size a)) val_dataset) \<and>
         (\<forall>c\<in>set train_dataloader \<union> set val_dataloder. length c \<noteq> 1)"
proof -
  from main_loaders_Inr [OF run] have pos: "0 < arg_batch_size a"
    and t: "DataLoader train_dataset (arg_batch_size a)
              (int (length train_dataset) mod arg_batch_size a = 1) = Inr train_dataloader"
    and v: "DataLoader val_dataset (arg_batch_size a)
              (int (length val_dataset) mod arg_batch_size a = 1) = Inr val_dataloder"
    by blast+
  from pos bs have big: "1 < arg_batch_size a" by simp
  from t have t': "train_dataloader =
           (if int (length train_dataset) mod arg_batch_size a = 1
            then butlast (chunks (nat (arg_batch_size a)) train_dataset)
            else chunks (nat (arg_batch_size a)) train_dataset)"
    unfolding DataLoader_flag [OF pos] by simp
  from v have v': "val_dataloder =
           (if int (length val_dataset) mod arg_batch_size a = 1
            then butlast (chunks (nat (arg_batch_size a)) val_dataset)
            else chunks (nat (arg_batch_size a)) val_dataset)"
    unfolding DataLoader_flag [OF pos] by simp
  have "length c \<noteq> 1" if "c \<in> set train_dataloader" for c
    using that unfolding t' by (rule DataLoader_no_single [OF big])
  moreover have "length c \<noteq> 1" if "c \<in> set val_dataloder" for c
    using that unfolding v' by (rule DataLoader_no_single [OF big])
  ultimately have "\<forall>c\<in>set train_dataloader \<union> set val_dataloder. length c \<noteq> 1"
    by blast
  with t' v' show ?thesis by blast
qed

lemma chunks_eval:
  "chunks (Suc n) (x # xs) = take (Suc n) (x # xs) # chunks (Suc n) (drop (Suc n) (x # xs))"
  by (rule chunks_Cons) simp_all

text \<open>
  Claim C10 as stated does not hold: with the batch size 1 the remainder is never 1,
  nothing is dropped, and every batch that is delivered has a single sample.
\<close>

theorem batch_size_one_delivers_single_samples:
  "main_loaders (example_args\<lparr>arg_batch_size := 1\<rparr>) [10, 20, 30] [40] =
     Inr ([[10], [20], [30]], [[40::nat]])"
  by (simp add: main_loaders_def drop_last_flag_def DataLoader_def chunks_eval chunks_Nil)

theorem no_single_sample_batch_witness:
  "arg_batch_size example_args \<noteq> 1 \<and>
   main_loaders example_args [10, 20, 30] [40, 50, 60, 70] =
     Inr ([[10, 20]], [[40, 50], [60, 70::nat]])"
proof -
  have h1: "arg_batch_size example_args \<noteq> 1"
    by (simp add: example_args_def)
  have bs: "arg_batch_size example_args = 2"
    by (simp add: example_args_def)
  have "\<exists>tlo vlo. main_loaders example_args [10, 20, 30] [40, 50, 60, 70::nat] = Inr (tlo, vlo)"
    by (simp add: main_loaders_def drop_last_flag_def DataLoader_def bs)
  then obtain tlo vlo where
    h2: "main_loaders example_args [10, 20, 30] [40, 50, 60, 70::nat] = Inr (tlo, vlo)"
    by blast
  from no_single_sample_batch [OF h1 h2]
  have "tlo = [[10, 20]]" and "vlo = [[40, 50], [60, 70]]"
    by (simp_all add: bs numeral_2_eq_2 chunks_eval chunks_Nil)
  with h1 h2 show ?thesis by simp
qed

section \<open>The theorems on the example run\<close>

lemma example_args_device: "example_args\<lparr>arg_device := ''cuda:0''\<rparr> = example_args"
  by (simp add: example_args_def)

theorem val_reads_only_witness:
  "\<exists>r w' evs. val example_lib example_args [example_batch] example_world = Inr (r, w', evs) \<and>
     model_params w' = model_params example_world \<and>
     optimizer_state w' = optimizer_state example_world \<and>
     Forward False False [[7, 7], [7, 7]] [[5, 6]] \<in> set evs \<and>
     OptimizerStep \<notin> set evs"
proof -
  from example_val [of "''cuda:0''" example_world] obtain r w' evs where
    h: "val example_lib example_args [example_batch] example_world = Inr (r, w', evs)"
    and f: "Forward False False [[7, 7], [7, 7]] [[5, 6]] \<in> set evs"
    by (simp add: example_args_device)
  from val_reads_only [OF h] h f show ?thesis by blast
qed

theorem device_fallback_once_witness:
  "\<exists>st evs. train example_lib example_args [example_batch] [example_batch] example_world =
       Inr (st, evs) \<and>
     take 2 evs = [CudaIsAvailable, ModelTo ''cpu''] \<and>
     CudaIsAvailable \<notin> set (drop 2 evs)"
proof -
  from example_train obtain st evs where
    h: "train example_lib example_args [example_batch] [example_batch] example_world =
       Inr (st, evs)"
    by blast
  from device_fallback_once [OF h] obtain post where
    "evs = [CudaIsAvailable, ModelTo ''cpu''] @ post"
    and "\<forall>e\<in>set post. e \<noteq> CudaIsAvailable \<and> (\<forall>dev. e \<noteq> ModelTo dev)"
    by (auto simp: example_args_fields example_lib_fields)
  with h show ?thesis by auto
qed

theorem backpropagated_loss_witness:
  "(\<exists>st evs. train example_lib example_args [example_batch] [example_batch] example_world =
       Inr (st, evs) \<and>
     Backward 0 \<in> set evs \<and>
     (\<exists>\<theta>. (0::real) = weighted_loss example_lib example_args 50 (50, ''sum'') 1 2 True True
                        example_batch \<theta>)) \<and>
   (\<exists>w1 evs1. train_batch example_lib example_args 50 (50, ''sum'') 1 2 example_world example_batch =
       Inr ((0, 0, 0), w1, evs1) \<and>
     Backward 0 \<in> set evs1 \<and>
     (0::real) = weighted_loss example_lib example_args 50 (50, ''sum'') 1 2 True True
                   example_batch 0)"
proof -
  from example_train obtain st evs where
    h: "train example_lib example_args [example_batch] [example_batch] example_world =
       Inr (st, evs)"
    and bw: "Backward 0 \<in> set evs"
    by blast
  have gr: "grad_enabled example_world"
    by (simp add: example_world_def)
  from example_train_batch [OF gr, of "''cuda:0''"] obtain w1 evs1 where
    h1: "train_batch example_lib example_args 50 (50, ''sum'') 1 2 example_world example_batch =
       Inr ((0, 0, 0), w1, evs1)"
    and bw1: "Backward 0 \<in> set evs1"
    by (simp add: example_args_device)
  note inst = backpropagated_loss [where L = example_lib and a = example_args
      and tbs = "[example_batch]" and vbs = "[example_batch]" and w = example_world
      and st = st and evs = evs and ph = 50 and ch = "(50, ''sum'')" and al = 1 and be = 2
      and ?w0.0 = example_world and ?b0.0 = example_batch and loss = 0 and ?loss1.0 = 0
      and ?loss2.0 = 0 and ?w1.0 = w1 and ?evs1.0 = evs1]
  from inst [THEN conjunct1, THEN mp, OF h]
  have "\<forall>l. Backward l \<in> set evs \<longrightarrow>
          (\<exists>b\<in>set [example_batch]. \<exists>\<theta>. l = weighted_loss example_lib example_args 50 (50, ''sum'')
                                   1 2 True True b \<theta>)"
    by (simp add: example_args_fields)
  with bw have g: "\<exists>\<theta>. (0::real) = weighted_loss example_lib example_args 50 (50, ''sum'') 1 2
      True True example_batch \<theta>"
    by fastforce
  from inst [THEN conjunct2, THEN mp, OF h1]
  have b: "(0::real) = weighted_loss example_lib example_args 50 (50, ''sum'') 1 2 True True
                   example_batch 0"
    by (simp add: example_world_def)
  have c1: "\<exists>st evs. train example_lib example_args [example_batch] [example_batch] example_world =
       Inr (st, evs) \<and>
     Backward 0 \<in> set evs \<and>
     (\<exists>\<theta>. (0::real) = weighted_loss example_lib example_args 50 (50, ''sum'') 1 2 True True
                        example_batch \<theta>)"
    by (rule exI [of _ st], rule exI [of _ evs]) (use h bw g in simp)
  have c2: "\<exists>w1 evs1. train_batch example_lib example_args 50 (50, ''sum'') 1 2 example_world
         example_batch = Inr ((0, 0, 0), w1, evs1) \<and>
     Backward 0 \<in> set evs1 \<and>
     (0::real) = weighted_loss example_lib example_args 50 (50, ''sum'') 1 2 True True
                   example_batch 0"
    by (rule exI [of _ w1], rule exI [of _ evs1]) (use h1 bw1 b in simp)
  from c1 c2 show ?thesis by (rule conjI)
qed

theorem best_and_last_checkpoints_witness:
  "(\<exists>w' evs. train_epoch example_lib example_args [example_batch] [example_batch] 50 (50, ''sum'')
        1 2 1 (example_world, 1000000) 0 = Inr ((w', 1), evs) \<and>
      map fst (saved evs) = [''checkpoint/model_best.pth'', ''checkpoint/model_last.pth'']) \<and>
   (\<exists>w' evs. train_epoch example_lib example_args [example_batch] [example_batch] 50 (50, ''sum'')
        1 2 1 (example_world, 1) 1 = Inr ((w', 1), evs) \<and>
      map fst (saved evs) = [''checkpoint/model_last.pth'']) \<and>
   (\<exists>w'' m'' evs'. train_epochs example_lib example_args [example_batch] [example_batch] 50
        (50, ''sum'') 1 2 1 (example_world, 1000000) [0, 1] = Inr ((w'', m''), evs') \<and>
      m'' \<le> 1000000)"
proof -
  have gr: "grad_enabled example_world"
    by (simp add: example_world_def)
  have bp: "best_path example_args = ''checkpoint/model_best.pth''"
    and lp: "last_path example_args = ''checkpoint/model_last.pth''"
    by (simp_all add: best_path_def last_path_def path_join_def example_args_fields)
  have v: "val example_lib example_args [example_batch] w3 = Inr ((ldx, dR, dT), w4, evs_val) \<Longrightarrow>
      ldx = 1" for w3 ldx dR dT w4 evs_val
    using example_val [of "''cuda:0''" w3] by (simp add: example_args_device)
  from example_train_epoch [OF gr, of "''cuda:0''" 1000000 0] obtain w1 evs1 where
    h1: "train_epoch example_lib example_args [example_batch] [example_batch] 50 (50, ''sum'')
        1 2 1 (example_world, 1000000) 0 = Inr ((w1, 1), evs1)"
    by (auto simp: example_args_device)
  from example_train_epoch [OF gr, of "''cuda:0''" 1 1] obtain w2 evs2 where
    h2: "train_epoch example_lib example_args [example_batch] [example_batch] 50 (50, ''sum'')
        1 2 1 (example_world, 1) 1 = Inr ((w2, 1), evs2)"
    by (auto simp: example_args_device)
  from example_train_epochs [OF gr, of "''cuda:0''" 1000000 "[0, 1]"] obtain w3 m3 evs3 where
    h3: "train_epochs example_lib example_args [example_batch] [example_batch] 50
        (50, ''sum'') 1 2 1 (example_world, 1000000) [0, 1] = Inr ((w3, m3), evs3)"
    by (auto simp: example_args_device)
  note inst = best_and_last_checkpoints [where L = example_lib and a = example_args
      and tbs = "[example_batch]" and vbs = "[example_batch]" and ph = 50
      and ch = "(50, ''sum'')" and al = 1 and be = 2 and ga = 1 and w = example_world]
  from inst [where m = 1000000 and ep = 0 and w' = w1 and m' = 1 and evs = evs1,
      THEN conjunct1, THEN mp, OF h1]
  obtain wv ldx dR dT w4 evs_val where
    "val example_lib example_args [example_batch] wv = Inr ((ldx, dR, dT), w4, evs_val)"
    and "map fst (saved evs1) =
           (if ldx < 1000000 then [best_path example_args, last_path example_args]
            else [last_path example_args])"
    by blast
  with v have s1: "map fst (saved evs1) =
      [''checkpoint/model_best.pth'', ''checkpoint/model_last.pth'']"
    by (fastforce simp: bp lp)
  from inst [where m = 1 and ep = 1 and w' = w2 and m' = 1 and evs = evs2,
      THEN conjunct1, THEN mp, OF h2]
  obtain wv' ldx' dR' dT' w4' evs_val' where
    "val example_lib example_args [example_batch] wv' = Inr ((ldx', dR', dT'), w4', evs_val')"
    and "map fst (saved evs2) =
           (if ldx' < 1 then [best_path example_args, last_path example_args]
            else [last_path example_args])"
    by blast
  with v have s2: "map fst (saved evs2) = [''checkpoint/model_last.pth'']"
    by (fastforce simp: bp lp)
  from inst [where m = 1000000 and es = "[0, 1]" and w'' = w3 and m'' = m3 and evs' = evs3,
      THEN conjunct2, THEN conjunct1, THEN mp, OF h3]
  have s3: "m3 \<le> 1000000" .
  have c1: "\<exists>w' evs. train_epoch example_lib example_args [example_batch] [example_batch] 50
        (50, ''sum'') 1 2 1 (example_world, 1000000) 0 = Inr ((w', 1), evs) \<and>
      map fst (saved evs) = [''checkpoint/model_best.pth'', ''checkpoint/model_last.pth'']"
    by (rule exI [of _ w1], rule exI [of _ evs1]) (use h1 s1 in simp)
  have c2: "\<exists>w' evs. train_epoch example_lib example_args [example_batch] [example_batch] 50
        (50, ''sum'') 1 2 1 (example_world, 1) 1 = Inr ((w', 1), evs) \<and>
      map fst (saved evs) = [''checkpoint/model_last.pth'']"
    by (rule exI [of _ w2], rule exI [of _ evs2]) (use h2 s2 in simp)
  have c3: "\<exists>w'' m'' evs'. train_epochs example_lib example_args [example_batch] [example_batch] 50
        (50, ''sum'') 1 2 1 (example_world, 1000000) [0, 1] = Inr ((w'', m''), evs') \<and>
      m'' \<le> 1000000"
    by (rule exI [of _ w3], rule exI [of _ m3], rule exI [of _ evs3]) (use h3 s3 in simp)
  from c1 c2 c3 show ?thesis by (intro conjI)
qed


end
